theory Spec2Isabelle
  imports Main
begin

section \<open>JavaScript values\<close>

text \<open>
  The unit under verification is \<^verbatim>\<open>src/template.js\<close>: the class \<^verbatim>\<open>Template\<close> with its
  constructor, the static colour validator, ten field accessors, \<^verbatim>\<open>keys\<close>,
  \<^verbatim>\<open>createPass\<close> and the static asynchronous \<^verbatim>\<open>load\<close>.

  A JavaScript string is a sequence of code units. The model writes it as a HOL
  \<^typ>\<open>string\<close>, one \<^typ>\<open>char\<close> per code unit, which covers the code units 0 to 255.

  A JavaScript number is an IEEE double. The code never computes with a number it
  receives; it only converts it to a string or tests its truthiness, so the model keeps
  the type abstract and takes both conversions from the runtime.
\<close>

typedecl number

text \<open>
  Modelled from the URL Standard: the class \<^verbatim>\<open>URL\<close> of Node's module \<^verbatim>\<open>url\<close> is not among
  the sources. The serialisation of a URL (\<^verbatim>\<open>href\<close>, which \<^verbatim>\<open>toString()\<close> returns) is its
  scheme, a colon, and the rest of the URL; \<^verbatim>\<open>protocol\<close> is the scheme with the colon. A URL
  is held as its protocol and what follows it in the serialisation.
\<close>

record url =
  protocol :: string
  after_protocol :: string

definition href :: "url \<Rightarrow> string" where
  "href u = protocol u @ after_protocol u"

datatype jsvalue =
    Undefined
  | Null
  | Boolean bool
  | Number number
  | String string
  | Array "jsvalue list"
  | Object "(string \<times> jsvalue) list"
  | URLInstance url

text \<open>
  The values are data: what \<^verbatim>\<open>JSON.parse\<close> builds, \<^verbatim>\<open>undefined\<close>, and instances of \<^verbatim>\<open>URL\<close>;
  no value is a function.
  \<open>Object kvs\<close> is a plain object (what \<^verbatim>\<open>JSON.parse\<close> or an object literal builds); \<open>kvs\<close>
  lists its own enumerable properties in the order of \<^verbatim>\<open>Object.entries\<close>. \<open>URLInstance u\<close>
  is an instance of the class \<^verbatim>\<open>URL\<close>, seen through the two members the code reads:
  \<^verbatim>\<open>protocol\<close> and \<^verbatim>\<open>toString()\<close>.
\<close>

datatype error =
    UnsupportedPassStyle jsvalue  \<comment> \<open>\<^verbatim>\<open>Error(`Unsupported pass style ${style}`)\<close>\<close>
  | InvalidColorValue jsvalue     \<comment> \<open>\<^verbatim>\<open>Error(`Invalid color value ${value}`)\<close>\<close>
  | NotBoolean                    \<comment> \<open>\<^verbatim>\<open>Error('suppressStripShine value must be a boolean!')\<close>\<close>
  | InvalidURL                    \<comment> \<open>the \<^verbatim>\<open>TypeError\<close> of \<^verbatim>\<open>new URL(v)\<close>\<close>
  | NotHTTPS                      \<comment> \<open>\<^verbatim>\<open>Error(`webServiceURL must be on HTTPS!`)\<close>\<close>
  | NotDirectory string           \<comment> \<open>\<^verbatim>\<open>Error(`Path ${folderPath} must be a directory!`)\<close>\<close>
  | UnknownPassStyle              \<comment> \<open>\<^verbatim>\<open>Error('Unknown pass style!')\<close>\<close>
  | TypeError                     \<comment> \<open>a \<^verbatim>\<open>TypeError\<close> raised by the language itself\<close>
  | SyntaxError                   \<comment> \<open>raised by \<^verbatim>\<open>JSON.parse\<close>\<close>
  | FsError string                \<comment> \<open>a rejected \<^verbatim>\<open>stat\<close> or \<^verbatim>\<open>readFile\<close>, with its code\<close>
  | ImagesError string            \<comment> \<open>a rejected \<^verbatim>\<open>loadFromDirectory\<close>\<close>

section \<open>Collaborators and the runtime\<close>

text \<open>
  \<^verbatim>\<open>template.js\<close> requires Node's modules \<^verbatim>\<open>url\<close>, \<^verbatim>\<open>fs\<close>, \<^verbatim>\<open>util\<close> and \<^verbatim>\<open>path\<close>, and the
  repository's \<^verbatim>\<open>./lib/images\<close>, \<^verbatim>\<open>./pass\<close> and \<^verbatim>\<open>./constants\<close>, none of which is among
  the sources. What the code calls of them is a field of the record \<open>runtime\<close>, so
  every theorem holds for any implementation of them.
\<close>

record stats =
  isDirectory :: bool
  isFile :: bool

text \<open>
  Modelled from the spec: the image collection of \<^verbatim>\<open>./lib/images\<close> (class \<^verbatim>\<open>PassImages\<close>),
  which is not among the sources. A collection holds the images loaded so far, by name;
  \<^verbatim>\<open>new PassImages()\<close> is the empty collection.
\<close>

datatype PassImages = PassImages "(string \<times> string) list"

record runtime =
  PASS_STYLES :: "string list"
    \<comment> \<open>the array exported by \<^verbatim>\<open>./constants\<close>, in its order\<close>
  Number_toString :: "number \<Rightarrow> string"
  Number_truthy :: "number \<Rightarrow> bool"
  Array_prototype_has :: "string \<Rightarrow> bool"
    \<comment> \<open>the property names of \<^verbatim>\<open>Array.prototype\<close>\<close>
  URL_new :: "jsvalue \<Rightarrow> url option"
    \<comment> \<open>\<^verbatim>\<open>new URL(v)\<close>; \<open>None\<close> when it throws\<close>
  statAsync :: "string \<Rightarrow> error + stats"
  readFileAsync :: "string \<Rightarrow> error + string"
  path_join :: "string \<Rightarrow> string \<Rightarrow> string"
  JSON_parse :: "string \<Rightarrow> error + jsvalue"
  loadFromDirectory :: "PassImages \<Rightarrow> string \<Rightarrow> error + PassImages"
    \<comment> \<open>\<^verbatim>\<open>images.loadFromDirectory(dir)\<close>: the collection after the call, or the rejection\<close>

section \<open>Strings: conversion, character classes, the colour pattern\<close>

text \<open>
  The conversion of a value to a string (the abstract operation ToString), which
  \<^verbatim>\<open>RegExp.prototype.exec\<close> applies to its argument and a template literal to each value it
  holds; the conversion to a property key is the same on these values. A plain object
  converts through its method \<^verbatim>\<open>toString\<close>: the one of \<^verbatim>\<open>Object.prototype\<close> gives
  \<^verbatim>\<open>[object Object]\<close>; an own property \<^verbatim>\<open>toString\<close> hides it and is not a function (no value
  is), and then \<^verbatim>\<open>valueOf\<close>, own or inherited, gives no primitive either, so the conversion
  raises a \<^verbatim>\<open>TypeError\<close>. An array is the comma-separated conversion of its elements, with
  \<^verbatim>\<open>undefined\<close> and \<^verbatim>\<open>null\<close> elements empty; the error of an element is the error of the array.
\<close>

fun ToString :: "runtime \<Rightarrow> jsvalue \<Rightarrow> error + string"
  and Array_join :: "runtime \<Rightarrow> jsvalue list \<Rightarrow> error + string" where
  "ToString rt Undefined = Inr ''undefined''"
| "ToString rt Null = Inr ''null''"
| "ToString rt (Boolean b) = Inr (if b then ''true'' else ''false'')"
| "ToString rt (Number n) = Inr (Number_toString rt n)"
| "ToString rt (String s) = Inr s"
| "ToString rt (Array xs) = Array_join rt xs"
| "ToString rt (Object kvs) =
     (if ''toString'' \<in> set (map fst kvs) then Inl TypeError else Inr ''[object Object]'')"
| "ToString rt (URLInstance u) = Inr (href u)"
| "Array_join rt [] = Inr []"
| "Array_join rt [x] =
     (case x of Undefined \<Rightarrow> Inr [] | Null \<Rightarrow> Inr [] | _ \<Rightarrow> ToString rt x)"
| "Array_join rt (x # y # ys) =
     (case (case x of Undefined \<Rightarrow> Inr [] | Null \<Rightarrow> Inr [] | _ \<Rightarrow> ToString rt x) of
        Inl e \<Rightarrow> Inl e
      | Inr s \<Rightarrow>
          (case Array_join rt (y # ys) of
             Inl e \<Rightarrow> Inl e
           | Inr r \<Rightarrow> Inr (s @ '','' @ r)))"

text \<open>The classes \<^verbatim>\<open>\s\<close> and \<^verbatim>\<open>\d\<close> of a JavaScript regular expression, on code units below 256.\<close>

definition isspace :: "char \<Rightarrow> bool" where
  "isspace c \<longleftrightarrow> (of_char c :: nat) \<in> {9, 10, 11, 12, 13, 32, 160}"

definition isdigit :: "char \<Rightarrow> bool" where
  "isdigit c \<longleftrightarrow> 48 \<le> (of_char c :: nat) \<and> (of_char c :: nat) \<le> 57"

text \<open>Matching a literal at the head of the input; the rest of the input is returned.\<close>

definition lit :: "string \<Rightarrow> string \<Rightarrow> string option" where
  "lit p s = (if take (length p) s = p then Some (drop (length p) s) else None)"

text \<open>\<^verbatim>\<open>\s*\<close> is greedy; what follows it in the pattern never starts with white space.\<close>

definition spaces :: "string \<Rightarrow> string" where
  "spaces s = dropWhile isspace s"

text \<open>
  \<^verbatim>\<open>(\d{1,3})\<close> is greedy too: it takes the digits at the head, at most three, and needs one.
  What follows it in the pattern (a comma, white space, the closing parenthesis) is never a
  digit, so giving a digit back cannot turn a failed match into a successful one.
\<close>

definition digits13 :: "string \<Rightarrow> (string \<times> string) option" where
  "digits13 s =
     (let d = takeWhile isdigit (take 3 s)
      in if d = [] then None else Some (d, drop (length d) s))"

text \<open>
  \<^verbatim>\<open>/^rgb\(\s*(\d{1,3}),\s*(\d{1,3}),\s*(\d{1,3})\s*\)$/.exec(s)\<close>: the three captured
  groups, or \<open>None\<close> for the result \<^verbatim>\<open>null\<close>.
\<close>

definition color_regex_exec :: "string \<Rightarrow> (string \<times> string \<times> string) option" where
  "color_regex_exec s =
     Option.bind (lit ''rgb('' s) (\<lambda>s1.
     Option.bind (digits13 (spaces s1)) (\<lambda>(r, s2).
     Option.bind (lit '','' s2) (\<lambda>s3.
     Option.bind (digits13 (spaces s3)) (\<lambda>(g, s4).
     Option.bind (lit '','' s4) (\<lambda>s5.
     Option.bind (digits13 (spaces s5)) (\<lambda>(b, s6).
     Option.bind (lit '')'' (spaces s6)) (\<lambda>s7.
     if s7 = [] then Some (r, g, b) else None)))))))"

text \<open>
  \<^verbatim>\<open>parseInt(s, 10)\<close>: leading white space is skipped, a sign is read, then the longest run
  of decimal digits; \<open>None\<close> is \<^verbatim>\<open>NaN\<close>. The value is exact as long as it is below \<open>2^53\<close>,
  which the three-digit groups of the pattern are.
\<close>

definition digit_val :: "char \<Rightarrow> int" where
  "digit_val c = int (of_char c) - 48"

definition decimal :: "string \<Rightarrow> int" where
  "decimal d = foldl (\<lambda>a c. 10 * a + digit_val c) 0 d"

definition parseInt10 :: "string \<Rightarrow> int option" where
  "parseInt10 s =
     (let t = dropWhile isspace s;
          neg = (take 1 t = ''-'');
          u = (if take 1 t = ''-'' \<or> take 1 t = ''+'' then drop 1 t else t);
          d = takeWhile isdigit u
      in if d = [] then None
         else Some ((if neg then - 1 else 1) * decimal d))"

section \<open>The colour validator\<close>

text \<open>
  \<^verbatim>\<open>static validateColorValue(value)\<close>. \<^verbatim>\<open>exec\<close> converts the value to a string, which may
  throw. When the pattern does not match, \<^verbatim>\<open>exec\<close> returns
  \<^verbatim>\<open>null\<close> and \<^verbatim>\<open>.slice(1)\<close> on it raises a \<^verbatim>\<open>TypeError\<close>. Otherwise the three groups are
  parsed and the callback of \<^verbatim>\<open>some\<close> throws on the first one that is \<^verbatim>\<open>NaN\<close>, negative or
  above 255; it returns \<^verbatim>\<open>false\<close> for the others, so all three are visited.
\<close>

definition bad_component :: "int option \<Rightarrow> bool" where
  "bad_component v = (case v of None \<Rightarrow> True | Some n \<Rightarrow> n < 0 \<or> n > 255)"

definition validateColorValue :: "runtime \<Rightarrow> jsvalue \<Rightarrow> error + unit" where
  "validateColorValue rt v =
     (case ToString rt v of
        Inl e \<Rightarrow> Inl e
      | Inr s \<Rightarrow>
          (case color_regex_exec s of
             None \<Rightarrow> Inl TypeError
           | Some (r, g, b) \<Rightarrow>
               if list_ex bad_component (map parseInt10 [r, g, b])
               then Inl (InvalidColorValue v) else Inr ()))"

section \<open>Objects, properties and truthiness\<close>

text \<open>The decimal form of an array index, as a property name.\<close>

function index_string :: "nat \<Rightarrow> string" where
  "index_string n =
     (if n < 10 then [char_of (48 + n)]
      else index_string (n div 10) @ [char_of (48 + n mod 10)])"
  by pat_completeness auto
termination
  by (relation "measure (\<lambda>n. n)") auto

definition index_entries :: "jsvalue list \<Rightarrow> (string \<times> jsvalue) list" where
  "index_entries xs = zip (map index_string [0..<length xs]) xs"

text \<open>
  The own enumerable string-keyed properties of a value, in the order in which
  \<^verbatim>\<open>Object.entries\<close> and \<^verbatim>\<open>Object.assign\<close> visit them. A string has one per code unit,
  an array one per element; a number, a boolean and a \<^verbatim>\<open>URL\<close> instance have none.
\<close>

definition own_entries :: "jsvalue \<Rightarrow> (string \<times> jsvalue) list" where
  "own_entries v =
     (case v of
        Object kvs \<Rightarrow> kvs
      | Array xs \<Rightarrow> index_entries xs
      | String s \<Rightarrow> index_entries (map (\<lambda>c. String [c]) s)
      | _ \<Rightarrow> [])"

text \<open>\<^verbatim>\<open>Object.entries(v)\<close> raises a \<^verbatim>\<open>TypeError\<close> on \<^verbatim>\<open>undefined\<close> and \<^verbatim>\<open>null\<close>.\<close>

definition Object_entries :: "jsvalue \<Rightarrow> error + (string \<times> jsvalue) list" where
  "Object_entries v =
     (case v of
        Undefined \<Rightarrow> Inl TypeError
      | Null \<Rightarrow> Inl TypeError
      | _ \<Rightarrow> Inr (own_entries v))"

text \<open>
  The property names of \<^verbatim>\<open>Object.prototype\<close>, and those among them whose value is a
  function (all but the accessor \<^verbatim>\<open>__proto__\<close>); the members of \<^verbatim>\<open>URL.prototype\<close>, of
  which all but the methods \<^verbatim>\<open>toString\<close> and \<^verbatim>\<open>toJSON\<close> are accessors.
\<close>

definition Object_prototype_functions :: "string list" where
  "Object_prototype_functions =
     [''constructor'', ''__defineGetter__'', ''__defineSetter__'', ''hasOwnProperty'',
      ''__lookupGetter__'', ''__lookupSetter__'', ''isPrototypeOf'', ''propertyIsEnumerable'',
      ''toString'', ''valueOf'', ''toLocaleString'']"

definition Object_prototype_names :: "string list" where
  "Object_prototype_names = ''__proto__'' # Object_prototype_functions"

definition URL_accessor_names :: "string list" where
  "URL_accessor_names =
     [''href'', ''origin'', ''protocol'', ''username'', ''password'', ''host'', ''hostname'',
      ''port'', ''pathname'', ''search'', ''searchParams'', ''hash'']"

definition URL_prototype_names :: "string list" where
  "URL_prototype_names = URL_accessor_names @ [''toString'', ''toJSON'']"

text \<open>
  \<^verbatim>\<open>k in v\<close>: an own property or one of the prototype chain; a \<^verbatim>\<open>TypeError\<close> when \<open>v\<close> is
  not an object.
\<close>

definition has_property :: "runtime \<Rightarrow> string \<Rightarrow> jsvalue \<Rightarrow> error + bool" where
  "has_property rt k v =
     (case v of
        Object kvs \<Rightarrow> Inr (k \<in> set (map fst kvs) \<or> k \<in> set Object_prototype_names)
      | Array xs \<Rightarrow>
          Inr (k \<in> set (map index_string [0..<length xs]) \<or> k = ''length''
               \<or> Array_prototype_has rt k \<or> k \<in> set Object_prototype_names)
      | URLInstance u \<Rightarrow>
          Inr (k \<in> set URL_prototype_names \<or> k \<in> set Object_prototype_names)
      | _ \<Rightarrow> Inl TypeError)"

text \<open>The truthiness of a value, as \<^verbatim>\<open>if (v)\<close> tests it.\<close>

definition truthy :: "runtime \<Rightarrow> jsvalue \<Rightarrow> bool" where
  "truthy rt v =
     (case v of
        Undefined \<Rightarrow> False
      | Null \<Rightarrow> False
      | Boolean b \<Rightarrow> b
      | Number n \<Rightarrow> Number_truthy rt n
      | String s \<Rightarrow> s \<noteq> []
      | _ \<Rightarrow> True)"

subsection \<open>Assignment to the properties of a new object\<close>

text \<open>
  An object built by \<^verbatim>\<open>Object.assign({}, ...)\<close>: its own properties, and its prototype, which
  is \<^verbatim>\<open>Object.prototype\<close> unless an assignment to \<^verbatim>\<open>__proto__\<close> has replaced it.
\<close>

datatype prototype = ObjectPrototype | Replaced jsvalue

record jsobject =
  own :: "string \<rightharpoonup> jsvalue"
  proto :: prototype

text \<open>
  \<^verbatim>\<open>Object.assign\<close> writes each property with the operation \<^verbatim>\<open>[[Set]]\<close>. For a name that is
  not an own property of the target, \<^verbatim>\<open>[[Set]]\<close> looks the name up along the prototype
  chain: an inherited data property (all of them are writable here) or no property at all
  makes it create an own property of the target; the accessor \<^verbatim>\<open>__proto__\<close> of
  \<^verbatim>\<open>Object.prototype\<close> has a setter, which is called instead; an accessor of
  \<^verbatim>\<open>URL.prototype\<close> either has no setter (\<^verbatim>\<open>origin\<close>, \<^verbatim>\<open>searchParams\<close>) or, as Web IDL
  prescribes for the attributes of an interface, a setter that refuses a receiver that is
  not a \<^verbatim>\<open>URL\<close>, and \<^verbatim>\<open>Object.assign\<close> raises a \<^verbatim>\<open>TypeError\<close> for both. A prototype \<^verbatim>\<open>null\<close>
  ends the chain at once.
\<close>

datatype set_outcome = CreateOwn | CallProtoSetter | SetFails

definition inherited_set :: "prototype \<Rightarrow> string \<Rightarrow> set_outcome" where
  "inherited_set p k =
     (case p of
        ObjectPrototype \<Rightarrow> if k = ''__proto__'' then CallProtoSetter else CreateOwn
      | Replaced v \<Rightarrow>
          (case v of
             Object kvs \<Rightarrow>
               if k \<in> set (map fst kvs) then CreateOwn
               else if k = ''__proto__'' then CallProtoSetter else CreateOwn
           | Array xs \<Rightarrow> if k = ''__proto__'' then CallProtoSetter else CreateOwn
           | URLInstance u \<Rightarrow>
               if k \<in> set URL_accessor_names then SetFails
               else if k = ''__proto__'' then CallProtoSetter else CreateOwn
           | _ \<Rightarrow> CreateOwn))"

text \<open>
  The setter of \<^verbatim>\<open>__proto__\<close>: an object or \<^verbatim>\<open>null\<close> becomes the prototype of the target, any
  other value is ignored. No own property is created.
\<close>

definition proto_setter :: "jsobject \<Rightarrow> jsvalue \<Rightarrow> jsobject" where
  "proto_setter ob v =
     (case v of
        Null \<Rightarrow> ob\<lparr>proto := Replaced v\<rparr>
      | Object kvs \<Rightarrow> ob\<lparr>proto := Replaced v\<rparr>
      | Array xs \<Rightarrow> ob\<lparr>proto := Replaced v\<rparr>
      | URLInstance u \<Rightarrow> ob\<lparr>proto := Replaced v\<rparr>
      | _ \<Rightarrow> ob)"

definition Set_property :: "jsobject \<Rightarrow> string \<Rightarrow> jsvalue \<Rightarrow> error + jsobject" where
  "Set_property ob k v =
     (if own ob k \<noteq> None then Inr (ob\<lparr>own := (own ob)(k \<mapsto> v)\<rparr>)
      else (case inherited_set (proto ob) k of
              CreateOwn \<Rightarrow> Inr (ob\<lparr>own := (own ob)(k \<mapsto> v)\<rparr>)
            | CallProtoSetter \<Rightarrow> Inr (proto_setter ob v)
            | SetFails \<Rightarrow> Inl TypeError))"

fun assign_entries :: "jsobject \<Rightarrow> (string \<times> jsvalue) list \<Rightarrow> error + jsobject" where
  "assign_entries ob [] = Inr ob"
| "assign_entries ob ((k, v) # es) =
     (case Set_property ob k v of
        Inl e \<Rightarrow> Inl e
      | Inr ob' \<Rightarrow> assign_entries ob' es)"

text \<open>
  \<^verbatim>\<open>Object.assign({}, this.fields, fields)\<close>. The first source is the Template's own field
  object, which gets its properties from the ten setters only and so has no own property
  \<^verbatim>\<open>__proto__\<close>: copying it onto the empty object creates an own property for each
  of its names. The second source is written entry by entry, a later entry over an
  earlier one; \<^verbatim>\<open>undefined\<close> and \<^verbatim>\<open>null\<close> sources have no entries.
\<close>

definition Object_assign :: "(string \<rightharpoonup> jsvalue) \<Rightarrow> jsvalue \<Rightarrow> error + jsobject" where
  "Object_assign this_fields source =
     assign_entries \<lparr>own = this_fields, proto = ObjectPrototype\<rparr> (own_entries source)"

section \<open>The Template\<close>

text \<open>
  The image collection of a Template is an object shared by reference with every pass
  minted from it, so the collections live in a store and a Template holds an address.
\<close>

type_synonym ref = nat

record heap =
  cells :: "ref \<rightharpoonup> PassImages"
  lim :: ref

text \<open>\<^verbatim>\<open>new PassImages()\<close>: a new, empty collection at the next free address.\<close>

definition new_PassImages :: "heap \<Rightarrow> ref \<times> heap" where
  "new_PassImages h = (lim h, h\<lparr>cells := (cells h)(lim h \<mapsto> PassImages []), lim := Suc (lim h)\<rparr>)"

text \<open>
  The own properties of a \<^verbatim>\<open>Template\<close> instance. \<^verbatim>\<open>fields\<close> is an object used as a map from
  field names to values. \<^verbatim>\<open>keysPath\<close>, \<^verbatim>\<open>password\<close> and \<^verbatim>\<open>images\<close> are \<open>None\<close> as long as
  the property has not been assigned (reading it gives \<^verbatim>\<open>undefined\<close>): the constructor
  assigns \<^verbatim>\<open>keysPath\<close> and \<^verbatim>\<open>images\<close> last, and never assigns \<^verbatim>\<open>password\<close>.
\<close>

record template =
  style :: string
  fields_obj :: "string \<rightharpoonup> jsvalue"
  keysPath :: "jsvalue option"
  password :: "jsvalue option"
  images :: "ref option"

text \<open>
  Modelled from the spec: the Pass Producer of \<^verbatim>\<open>./pass\<close> (class \<^verbatim>\<open>Pass\<close>), which is not among
  the sources. It accepts a Template, the merged fields and the image reference; the
  model records the three arguments of \<^verbatim>\<open>new Pass(...)\<close>.
\<close>

datatype pass = Pass template jsobject "ref option"

text \<open>
  A method call returns a value or throws, and leaves the instance in some state: the
  result of a method is the pair of both. \<open>This\<close> is the instance itself, returned by
  the setters for chaining.
\<close>

datatype ret = This | Value jsvalue | Created pass

definition arg :: "nat \<Rightarrow> jsvalue list \<Rightarrow> jsvalue" where
  "arg i args = (if i < length args then args ! i else Undefined)"

text \<open>Reading \<^verbatim>\<open>this.fields.name\<close>: \<^verbatim>\<open>undefined\<close> when the property is absent.\<close>

definition read_field :: "template \<Rightarrow> string \<Rightarrow> jsvalue" where
  "read_field t name = (case fields_obj t name of None \<Rightarrow> Undefined | Some v \<Rightarrow> v)"

subsection \<open>Field accessors\<close>

text \<open>
  Each accessor is a setter when \<^verbatim>\<open>arguments.length === 1\<close> and a getter otherwise.
\<close>

definition passTypeIdentifier :: "jsvalue list \<Rightarrow> template \<Rightarrow> (error + ret) \<times> template" where
  "passTypeIdentifier args t =
     (if length args = 1
      then (Inr This, t\<lparr>fields_obj := (fields_obj t)(''passTypeIdentifier'' \<mapsto> args ! 0)\<rparr>)
      else (Inr (Value (read_field t ''passTypeIdentifier'')), t))"

definition teamIdentifier :: "jsvalue list \<Rightarrow> template \<Rightarrow> (error + ret) \<times> template" where
  "teamIdentifier args t =
     (if length args = 1
      then (Inr This, t\<lparr>fields_obj := (fields_obj t)(''teamIdentifier'' \<mapsto> args ! 0)\<rparr>)
      else (Inr (Value (read_field t ''teamIdentifier'')), t))"

definition backgroundColor :: "jsvalue list \<Rightarrow> template \<Rightarrow> (error + ret) \<times> template" where
  "backgroundColor args t =
     (if length args = 1
      then (Inr This, t\<lparr>fields_obj := (fields_obj t)(''backgroundColor'' \<mapsto> args ! 0)\<rparr>)
      else (Inr (Value (read_field t ''backgroundColor'')), t))"

definition foregroundColor :: "runtime \<Rightarrow> jsvalue list \<Rightarrow> template \<Rightarrow> (error + ret) \<times> template" where
  "foregroundColor rt args t =
     (if length args = 1
      then (case validateColorValue rt (args ! 0) of
              Inl e \<Rightarrow> (Inl e, t)
            | Inr _ \<Rightarrow> (Inr This, t\<lparr>fields_obj := (fields_obj t)(''foregroundColor'' \<mapsto> args ! 0)\<rparr>))
      else (Inr (Value (read_field t ''foregroundColor'')), t))"

definition labelColor :: "runtime \<Rightarrow> jsvalue list \<Rightarrow> template \<Rightarrow> (error + ret) \<times> template" where
  "labelColor rt args t =
     (if length args = 1
      then (case validateColorValue rt (args ! 0) of
              Inl e \<Rightarrow> (Inl e, t)
            | Inr _ \<Rightarrow> (Inr This, t\<lparr>fields_obj := (fields_obj t)(''labelColor'' \<mapsto> args ! 0)\<rparr>))
      else (Inr (Value (read_field t ''labelColor'')), t))"

definition logoText :: "jsvalue list \<Rightarrow> template \<Rightarrow> (error + ret) \<times> template" where
  "logoText args t =
     (if length args = 1
      then (Inr This, t\<lparr>fields_obj := (fields_obj t)(''logoText'' \<mapsto> args ! 0)\<rparr>)
      else (Inr (Value (read_field t ''logoText'')), t))"

definition organizationName :: "jsvalue list \<Rightarrow> template \<Rightarrow> (error + ret) \<times> template" where
  "organizationName args t =
     (if length args = 1
      then (Inr This, t\<lparr>fields_obj := (fields_obj t)(''organizationName'' \<mapsto> args ! 0)\<rparr>)
      else (Inr (Value (read_field t ''organizationName'')), t))"

definition groupingIdentifier :: "jsvalue list \<Rightarrow> template \<Rightarrow> (error + ret) \<times> template" where
  "groupingIdentifier args t =
     (if length args = 1
      then (Inr This, t\<lparr>fields_obj := (fields_obj t)(''groupingIdentifier'' \<mapsto> args ! 0)\<rparr>)
      else (Inr (Value (read_field t ''groupingIdentifier'')), t))"

definition suppressStripShine :: "jsvalue list \<Rightarrow> template \<Rightarrow> (error + ret) \<times> template" where
  "suppressStripShine args t =
     (if length args = 1
      then (case args ! 0 of
              Boolean b \<Rightarrow>
                (Inr This, t\<lparr>fields_obj := (fields_obj t)(''suppressStripShine'' \<mapsto> args ! 0)\<rparr>)
            | _ \<Rightarrow> (Inl NotBoolean, t))
      else (Inr (Value (read_field t ''suppressStripShine'')), t))"

text \<open>\<^verbatim>\<open>v instanceof URL ? v : new URL(v)\<close>; \<open>None\<close> when the constructor throws.\<close>

definition to_URL :: "runtime \<Rightarrow> jsvalue \<Rightarrow> url option" where
  "to_URL rt v = (case v of URLInstance u \<Rightarrow> Some u | _ \<Rightarrow> URL_new rt v)"

definition webServiceURL :: "runtime \<Rightarrow> jsvalue list \<Rightarrow> template \<Rightarrow> (error + ret) \<times> template" where
  "webServiceURL rt args t =
     (if length args = 1
      then (case to_URL rt (args ! 0) of
              None \<Rightarrow> (Inl InvalidURL, t)
            | Some u \<Rightarrow>
                if protocol u \<noteq> ''https:'' then (Inl NotHTTPS, t)
                else (Inr This,
                      t\<lparr>fields_obj := (fields_obj t)(''webServiceURL'' \<mapsto> String (href u))\<rparr>))
      else (Inr (Value (read_field t ''webServiceURL'')), t))"

subsection \<open>Key location and pass creation\<close>

definition keys :: "runtime \<Rightarrow> jsvalue list \<Rightarrow> template \<Rightarrow> (error + ret) \<times> template" where
  "keys rt args t =
     (let t1 = (if truthy rt (arg 0 args) then t\<lparr>keysPath := Some (arg 0 args)\<rparr> else t);
          t2 = (if truthy rt (arg 1 args) then t1\<lparr>password := Some (arg 1 args)\<rparr> else t1)
      in (Inr (Value Undefined), t2))"

text \<open>
  \<^verbatim>\<open>createPass(fields = {})\<close>: the default applies when the argument is \<^verbatim>\<open>undefined\<close>.
  \<^verbatim>\<open>Object.assign({}, this.fields, fields)\<close> builds a new object, so the Template's own
  \<^verbatim>\<open>fields\<close> is only read; when it throws, no pass is created.
\<close>

definition createPass :: "jsvalue list \<Rightarrow> template \<Rightarrow> (error + ret) \<times> template" where
  "createPass args t =
     (let fields = (if arg 0 args = Undefined then Object [] else arg 0 args)
      in (case Object_assign (fields_obj t) fields of
            Inl e \<Rightarrow> (Inl e, t)
          | Inr merged \<Rightarrow> (Inr (Created (Pass t merged (images t))), t)))"

subsection \<open>The constructor\<close>

text \<open>
  \<^verbatim>\<open>typeof this[field] === 'function'\<close>, while the constructor runs. The instance has the own
  properties \<^verbatim>\<open>style\<close> (a string) and \<^verbatim>\<open>fields\<close> (an object) by then; every other name is
  looked up in \<^verbatim>\<open>Template.prototype\<close>, which holds the methods of the class and
  \<^verbatim>\<open>constructor\<close>, and then in \<^verbatim>\<open>Object.prototype\<close>. The static members
  \<^verbatim>\<open>validateColorValue\<close> and \<^verbatim>\<open>load\<close> are properties of the class, not of the instance.
\<close>

definition field_names :: "string list" where
  "field_names =
     [''passTypeIdentifier'', ''teamIdentifier'', ''backgroundColor'', ''foregroundColor'',
      ''labelColor'', ''logoText'', ''organizationName'', ''groupingIdentifier'',
      ''suppressStripShine'', ''webServiceURL'']"

definition is_function_member :: "string \<Rightarrow> bool" where
  "is_function_member field \<longleftrightarrow>
     field \<in> set field_names \<or> field = ''keys'' \<or> field = ''createPass''
     \<or> field \<in> set Object_prototype_functions"

text \<open>\<^verbatim>\<open>this[field](...args)\<close> for the name of a field accessor.\<close>

definition accessor :: "runtime \<Rightarrow> string \<Rightarrow> jsvalue list \<Rightarrow> template \<Rightarrow> (error + ret) \<times> template" where
  "accessor rt field args t =
     (if field = ''passTypeIdentifier'' then passTypeIdentifier args t
      else if field = ''teamIdentifier'' then teamIdentifier args t
      else if field = ''backgroundColor'' then backgroundColor args t
      else if field = ''foregroundColor'' then foregroundColor rt args t
      else if field = ''labelColor'' then labelColor rt args t
      else if field = ''logoText'' then logoText args t
      else if field = ''organizationName'' then organizationName args t
      else if field = ''groupingIdentifier'' then groupingIdentifier args t
      else if field = ''suppressStripShine'' then suppressStripShine args t
      else webServiceURL rt args t)"

text \<open>
  \<^verbatim>\<open>this[field](value)\<close> for a name whose member is a function. \<^verbatim>\<open>constructor\<close> is the class
  itself, and a class called without \<^verbatim>\<open>new\<close> raises a \<^verbatim>\<open>TypeError\<close>; so do
  \<^verbatim>\<open>__defineGetter__\<close> and \<^verbatim>\<open>__defineSetter__\<close>, whose second argument must be callable and
  is \<^verbatim>\<open>undefined\<close> here. \<^verbatim>\<open>hasOwnProperty\<close>, \<^verbatim>\<open>propertyIsEnumerable\<close>, \<^verbatim>\<open>__lookupGetter__\<close> and
  \<^verbatim>\<open>__lookupSetter__\<close> convert their argument to a property key, which may throw, and
  then only inspect the instance, as \<^verbatim>\<open>isPrototypeOf\<close>, \<^verbatim>\<open>toString\<close>, \<^verbatim>\<open>toLocaleString\<close> and
  \<^verbatim>\<open>valueOf\<close> do without a conversion. The value such a call returns is discarded by the
  constructor, so the model returns \<open>Value Undefined\<close> for it.
\<close>

definition call_member :: "runtime \<Rightarrow> string \<Rightarrow> jsvalue \<Rightarrow> template \<Rightarrow> (error + ret) \<times> template" where
  "call_member rt field v t =
     (if field \<in> set field_names then accessor rt field [v] t
      else if field = ''keys'' then keys rt [v] t
      else if field = ''createPass'' then createPass [v] t
      else if field = ''constructor'' then (Inl TypeError, t)
      else if field = ''__defineGetter__'' \<or> field = ''__defineSetter__'' then (Inl TypeError, t)
      else if field = ''hasOwnProperty'' \<or> field = ''propertyIsEnumerable''
              \<or> field = ''__lookupGetter__'' \<or> field = ''__lookupSetter__''
        then (case ToString rt v of
                Inl e \<Rightarrow> (Inl e, t)
              | Inr key \<Rightarrow> (Inr (Value Undefined), t))
      else (Inr (Value Undefined), t))"

text \<open>
  \<^verbatim>\<open>Object.entries(fields).forEach(([field, value]) => { if (typeof this[field] === 'function') this[field](value); })\<close>:
  the first call that throws ends the loop and the construction.
\<close>

fun apply_fields :: "runtime \<Rightarrow> (string \<times> jsvalue) list \<Rightarrow> template \<Rightarrow> error + template" where
  "apply_fields rt [] t = Inr t"
| "apply_fields rt ((field, v) # es) t =
     (if is_function_member field
      then (case call_member rt field v t of
              (Inl e, _) \<Rightarrow> Inl e
            | (Inr _, t') \<Rightarrow> apply_fields rt es t')
      else apply_fields rt es t)"

text \<open>
  \<^verbatim>\<open>new Template(style, fields = {})\<close>. \<^verbatim>\<open>PASS_STYLES.includes(style)\<close> holds for a string of
  the array only. The message of the error for another style is the template literal
  \<^verbatim>\<open>`Unsupported pass style ${style}`\<close>, which converts the style to a string first: when the
  conversion throws, its error is the one thrown. A construction that throws yields no
  instance.
\<close>

definition unsupported_style :: "runtime \<Rightarrow> jsvalue \<Rightarrow> error" where
  "unsupported_style rt style_arg =
     (case ToString rt style_arg of
        Inl e \<Rightarrow> e
      | Inr message \<Rightarrow> UnsupportedPassStyle style_arg)"

definition Template_new :: "runtime \<Rightarrow> heap \<Rightarrow> jsvalue \<Rightarrow> jsvalue \<Rightarrow> (error + template) \<times> heap" where
  "Template_new rt h style_arg fields_arg =
     (case style_arg of
        String s \<Rightarrow>
          if s \<in> set (PASS_STYLES rt)
          then (case Object_entries (if fields_arg = Undefined then Object [] else fields_arg) of
                  Inl e \<Rightarrow> (Inl e, h)
                | Inr es \<Rightarrow>
                    (case apply_fields rt es
                            \<lparr>style = s, fields_obj = Map.empty, keysPath = None,
                             password = None, images = None\<rparr> of
                       Inl e \<Rightarrow> (Inl e, h)
                     | Inr t \<Rightarrow>
                         (Inr (t\<lparr>keysPath := Some (String ''keys''),
                                 images := Some (fst (new_PassImages h))\<rparr>),
                          snd (new_PassImages h))))
          else (Inl (unsupported_style rt style_arg), h)
      | _ \<Rightarrow> (Inl (unsupported_style rt style_arg), h))"

section \<open>Loading a Template from a directory\<close>

text \<open>
  \<^verbatim>\<open>PASS_STYLES.some(t => { if (t in passJson) { type = t; return true; } return false; })\<close>
  and the \<^verbatim>\<open>throw\<close> that follows when no style was found.
\<close>

fun detect_style :: "runtime \<Rightarrow> string list \<Rightarrow> jsvalue \<Rightarrow> error + string" where
  "detect_style rt [] passJson = Inl UnknownPassStyle"
| "detect_style rt (t # ts) passJson =
     (case has_property rt t passJson of
        Inl e \<Rightarrow> Inl e
      | Inr found \<Rightarrow> if found then Inr t else detect_style rt ts passJson)"

text \<open>
  \<^verbatim>\<open>passJson.passTypeIdentifier\<close>, when it is a string; \<open>None\<close> for every other value, on
  which \<^verbatim>\<open>typeIdentifier.replace(...)\<close> raises a \<^verbatim>\<open>TypeError\<close> (\<^verbatim>\<open>undefined\<close> and \<^verbatim>\<open>null\<close> have
  no properties, and no other value has a method \<^verbatim>\<open>replace\<close>). Only a plain object can hold
  a string under that name.
\<close>

definition typeIdentifier_string :: "jsvalue \<Rightarrow> string option" where
  "typeIdentifier_string passJson =
     (case passJson of
        Object kvs \<Rightarrow>
          (case map_of kvs ''passTypeIdentifier'' of Some (String s) \<Rightarrow> Some s | _ \<Rightarrow> None)
      | _ \<Rightarrow> None)"

text \<open>\<^verbatim>\<open>`${typeIdentifier.replace(/^pass\./, '')}.pem`\<close>\<close>

definition keyName :: "string \<Rightarrow> string" where
  "keyName typeIdentifier =
     (if take 5 typeIdentifier = ''pass.'' then drop 5 typeIdentifier else typeIdentifier) @ ''.pem''"

text \<open>
  The probe inside \<^verbatim>\<open>try { ... } catch (_) {}\<close>: a rejected \<^verbatim>\<open>stat\<close> leaves the Template as
  it is.
\<close>

definition probe_key :: "runtime \<Rightarrow> string \<Rightarrow> jsvalue \<Rightarrow> string \<Rightarrow> template \<Rightarrow> template" where
  "probe_key rt folderPath keyPassword name t =
     (case statAsync rt name of
        Inl e \<Rightarrow> t
      | Inr keyStat \<Rightarrow>
          if isFile keyStat then snd (keys rt [String folderPath, keyPassword] t) else t)"

text \<open>
  \<^verbatim>\<open>static async load(folderPath, keyPassword)\<close>. Each \<^verbatim>\<open>await\<close> either gives a value or
  rejects, and a rejection rejects the whole call; the model runs the steps in order on a
  file system that does not change during the call. The result is the Template or the
  error, and the store, in which the Template's image collection has been loaded.
\<close>

definition load :: "runtime \<Rightarrow> heap \<Rightarrow> string \<Rightarrow> jsvalue \<Rightarrow> (error + template) \<times> heap" where
  "load rt h folderPath keyPassword =
     (case statAsync rt folderPath of
        Inl e \<Rightarrow> (Inl e, h)
      | Inr stats \<Rightarrow>
     if \<not> isDirectory stats then (Inl (NotDirectory folderPath), h) else
     (case readFileAsync rt (path_join rt folderPath ''pass.json'') of
        Inl e \<Rightarrow> (Inl e, h)
      | Inr content \<Rightarrow>
     (case JSON_parse rt content of
        Inl e \<Rightarrow> (Inl e, h)
      | Inr passJson \<Rightarrow>
     (case detect_style rt (PASS_STYLES rt) passJson of
        Inl e \<Rightarrow> (Inl e, h)
      | Inr type \<Rightarrow>
     (case Template_new rt h (String type) passJson of
        (Inl e, h1) \<Rightarrow> (Inl e, h1)
      | (Inr t, h1) \<Rightarrow>
     (case images t of
        None \<Rightarrow> (Inl TypeError, h1)
      | Some r \<Rightarrow>
     (case cells h1 r of
        None \<Rightarrow> (Inl TypeError, h1)
      | Some imgs \<Rightarrow>
     (case loadFromDirectory rt imgs folderPath of
        Inl e \<Rightarrow> (Inl e, h1)
      | Inr imgs' \<Rightarrow>
     (case typeIdentifier_string passJson of
        None \<Rightarrow> (Inl TypeError, h1\<lparr>cells := (cells h1)(r \<mapsto> imgs')\<rparr>)
      | Some typeIdentifier \<Rightarrow>
          (Inr (probe_key rt folderPath keyPassword (keyName typeIdentifier) t),
           h1\<lparr>cells := (cells h1)(r \<mapsto> imgs')\<rparr>))))))))))"

section \<open>The states a Template can reach\<close>

text \<open>
  A Template comes out of the constructor and changes only through its methods; \<open>load\<close>
  is the constructor followed by \<open>keys\<close>.
\<close>

inductive reachable :: "runtime \<Rightarrow> template \<Rightarrow> bool" for rt :: runtime where
  constructed:
    "Template_new rt h style_arg fields_arg = (Inr t, h') \<Longrightarrow> reachable rt t"
| accessed:
    "reachable rt t \<Longrightarrow> field \<in> set field_names \<Longrightarrow> reachable rt (snd (accessor rt field args t))"
| keyed:
    "reachable rt t \<Longrightarrow> reachable rt (snd (keys rt args t))"
| minted:
    "reachable rt t \<Longrightarrow> reachable rt (snd (createPass args t))"

section \<open>The specification's notions\<close>

text \<open>
  The validation rule of each field and the value its setter stores, as the table of the
  accessor contract states them: the two colour fields must satisfy the colour validator,
  \<^verbatim>\<open>suppressStripShine\<close> must be a boolean, \<^verbatim>\<open>webServiceURL\<close> must parse as a URL whose
  scheme is https and is stored as the string form of the parsed URL; the other fields
  take any value.
\<close>

definition spec_valid :: "runtime \<Rightarrow> string \<Rightarrow> jsvalue \<Rightarrow> bool" where
  "spec_valid rt field v =
     (if field = ''foregroundColor'' \<or> field = ''labelColor'' then validateColorValue rt v = Inr ()
      else if field = ''suppressStripShine'' then (case v of Boolean b \<Rightarrow> True | _ \<Rightarrow> False)
      else if field = ''webServiceURL''
        then (case to_URL rt v of None \<Rightarrow> False | Some u \<Rightarrow> protocol u = ''https:'')
      else True)"

definition spec_stored :: "runtime \<Rightarrow> string \<Rightarrow> jsvalue \<Rightarrow> jsvalue" where
  "spec_stored rt field v =
     (if field = ''webServiceURL''
      then (case to_URL rt v of None \<Rightarrow> Undefined | Some u \<Rightarrow> String (href u))
      else v)"

text \<open>
  The invariant of the field mapping: every entry belongs to a field of the table and
  holds what the field's setter stores for some value that satisfies the field's rule.
\<close>

definition fields_valid :: "runtime \<Rightarrow> template \<Rightarrow> bool" where
  "fields_valid rt t \<longleftrightarrow>
     (\<forall>field v. fields_obj t field = Some v \<longrightarrow>
        field \<in> set field_names \<and> (\<exists>a. spec_valid rt field a \<and> v = spec_stored rt field a))"

text \<open>
  The first two steps of \<open>load\<close> succeed and the definition file holds the object with
  the entries \<open>kvs\<close>: the path is a directory, \<^verbatim>\<open>pass.json\<close> in it is read, and its content
  parses to that object.
\<close>

definition definition_read :: "runtime \<Rightarrow> string \<Rightarrow> (string \<times> jsvalue) list \<Rightarrow> bool" where
  "definition_read rt folderPath kvs \<longleftrightarrow>
     (\<exists>st content.
        statAsync rt folderPath = Inr st \<and> isDirectory st
        \<and> readFileAsync rt (path_join rt folderPath ''pass.json'') = Inr content
        \<and> JSON_parse rt content = Inr (Object kvs))"

text \<open>
  Entries of a definition object that the constructor takes without throwing: the value
  of every field of the table satisfies the field's rule, and every other key names no
  function member of the instance, so that nothing but the setters of the fields is
  called.
\<close>

definition entries_accepted :: "runtime \<Rightarrow> (string \<times> jsvalue) list \<Rightarrow> bool" where
  "entries_accepted rt kvs \<longleftrightarrow>
     (\<forall>(k, v) \<in> set kvs.
        (k \<in> set field_names \<longrightarrow> spec_valid rt k v)
        \<and> (k \<notin> set field_names \<longrightarrow> \<not> is_function_member k))"

text \<open>
  The field mapping built from a definition object: its entries for the fields of the
  table, each with the value the field's setter stores.
\<close>

definition recognised_fields :: "runtime \<Rightarrow> (string \<times> jsvalue) list \<Rightarrow> (string \<rightharpoonup> jsvalue)" where
  "recognised_fields rt kvs =
     (\<lambda>k. if k \<in> set field_names then map_option (spec_stored rt k) (map_of kvs k) else None)"

text \<open>
  The shape of a colour as the specification words it: \<^verbatim>\<open>rgb(R, G, B)\<close> with optional
  white space around the commas and the parentheses, and three decimal integers in
  \<open>[0,255]\<close>.
\<close>

definition spec_color_shape :: "string \<Rightarrow> bool" where
  "spec_color_shape s \<longleftrightarrow>
     (\<exists>w0 w1 w2 w3 w4 w5 w6 w7 r g b.
        s = ''rgb'' @ w0 @ ''('' @ w1 @ r @ w2 @ '','' @ w3 @ g @ w4 @ '','' @ w5 @ b @ w6 @ '')'' @ w7
        \<and> list_all isspace (w0 @ w1 @ w2 @ w3 @ w4 @ w5 @ w6 @ w7)
        \<and> r \<noteq> [] \<and> g \<noteq> [] \<and> b \<noteq> [] \<and> list_all isdigit (r @ g @ b)
        \<and> decimal r \<le> 255 \<and> decimal g \<le> 255 \<and> decimal b \<le> 255)"

text \<open>
  The language of the pattern \<^verbatim>\<open>/^rgb\(\s*(\d{1,3}),\s*(\d{1,3}),\s*(\d{1,3})\s*\)$/\<close>, read
  off the pattern piece by piece, with its three groups.
\<close>

definition rgb_pattern :: "string \<Rightarrow> string \<Rightarrow> string \<Rightarrow> string \<Rightarrow> bool" where
  "rgb_pattern s r g b \<longleftrightarrow>
     (\<exists>w1 w2 w3 w4.
        s = ''rgb('' @ w1 @ r @ '','' @ w2 @ g @ '','' @ w3 @ b @ w4 @ '')''
        \<and> list_all isspace (w1 @ w2 @ w3 @ w4)
        \<and> r \<noteq> [] \<and> length r \<le> 3 \<and> g \<noteq> [] \<and> length g \<le> 3 \<and> b \<noteq> [] \<and> length b \<le> 3
        \<and> list_all isdigit (r @ g @ b))"

section \<open>A concrete runtime for the closed examples\<close>

text \<open>
  A small world on which the definitions can be run: the five styles the specification
  names, a \<^verbatim>\<open>URL\<close> constructor that knows two addresses, and a file system with five
  bundle directories (one without a definition file, one whose definition file does not
  parse) and one key file in the working directory.
\<close>

definition example_definition :: "(string \<times> jsvalue) list" where
  "example_definition =
     [(''description'', String ''Example event''),
      (''passTypeIdentifier'', String ''pass.com.example.event''),
      (''teamIdentifier'', String ''A1B2C3''),
      (''webServiceURL'', String ''https://example.com''),
      (''foregroundColor'', String ''rgb(255, 255, 255)''),
      (''eventTicket'', Object [])]"

definition example_runtime :: runtime where
  "example_runtime =
     \<lparr>PASS_STYLES = [''boardingPass'', ''coupon'', ''eventTicket'', ''generic'', ''storeCard''],
      Number_toString = (\<lambda>n. ''NaN''),
      Number_truthy = (\<lambda>n. False),
      Array_prototype_has = (\<lambda>k. k \<in> set [''push'', ''pop'', ''slice'']),
      URL_new = (\<lambda>v.
        if v = String ''https://example.com''
          then Some \<lparr>protocol = ''https:'', after_protocol = ''//example.com/''\<rparr>
        else if v = String ''http://example.com''
          then Some \<lparr>protocol = ''http:'', after_protocol = ''//example.com/''\<rparr>
        else None),
      statAsync = (\<lambda>p.
        if p = ''Event.pass'' \<or> p = ''Bare.pass'' \<or> p = ''Plain.pass''
           \<or> p = ''Empty.pass'' \<or> p = ''Broken.pass''
          then Inr \<lparr>isDirectory = True, isFile = False\<rparr>
        else if p = ''com.example.event.pem''
          then Inr \<lparr>isDirectory = False, isFile = True\<rparr>
        else Inl (FsError ''ENOENT'')),
      readFileAsync = (\<lambda>p.
        if p = ''Event.pass/pass.json'' then Inr ''event''
        else if p = ''Bare.pass/pass.json'' then Inr ''bare''
        else if p = ''Plain.pass/pass.json'' then Inr ''plain''
        else if p = ''Broken.pass/pass.json'' then Inr ''{''
        else Inl (FsError ''ENOENT'')),
      path_join = (\<lambda>a b. a @ ''/'' @ b),
      JSON_parse = (\<lambda>s.
        if s = ''event'' then Inr (Object example_definition)
        else if s = ''bare'' then Inr (Object [(''eventTicket'', Object [])])
        else if s = ''plain'' then Inr (Object [(''description'', String ''none'')])
        else Inl SyntaxError),
      loadFromDirectory = (\<lambda>imgs dir. Inr (PassImages [(''icon.png'', dir)]))\<rparr>"

definition empty_heap :: heap where
  "empty_heap = \<lparr>cells = Map.empty, lim = 0\<rparr>"

text \<open>
  The Template that the constructor builds from \<open>example_definition\<close> with the style
  \<^verbatim>\<open>'eventTicket'\<close>, and the store after its construction on the empty store.
\<close>

definition example_template :: template where
  "example_template =
     \<lparr>style = ''eventTicket'',
      fields_obj = [''passTypeIdentifier'' \<mapsto> String ''pass.com.example.event'',
                    ''teamIdentifier'' \<mapsto> String ''A1B2C3'',
                    ''webServiceURL'' \<mapsto> String ''https://example.com/'',
                    ''foregroundColor'' \<mapsto> String ''rgb(255, 255, 255)''],
      keysPath = Some (String ''keys''), password = None, images = Some 0\<rparr>"


definition example_heap :: heap where
  "example_heap = \<lparr>cells = [0 \<mapsto> PassImages []], lim = Suc 0\<rparr>"

section \<open>Auxiliary facts about the accessors\<close>

lemmas accessor_defs = passTypeIdentifier_def teamIdentifier_def backgroundColor_def
  foregroundColor_def labelColor_def logoText_def organizationName_def groupingIdentifier_def
  suppressStripShine_def webServiceURL_def

lemma plain_throw:
  "fst (passTypeIdentifier args t) = Inl e \<Longrightarrow> snd (passTypeIdentifier args t) = t"
  "fst (teamIdentifier args t) = Inl e \<Longrightarrow> snd (teamIdentifier args t) = t"
  "fst (backgroundColor args t) = Inl e \<Longrightarrow> snd (backgroundColor args t) = t"
  "fst (logoText args t) = Inl e \<Longrightarrow> snd (logoText args t) = t"
  "fst (organizationName args t) = Inl e \<Longrightarrow> snd (organizationName args t) = t"
  "fst (groupingIdentifier args t) = Inl e \<Longrightarrow> snd (groupingIdentifier args t) = t"
  by (simp_all add: accessor_defs split: if_splits)

lemma color_throw:
  "fst (foregroundColor rt args t) = Inl e \<Longrightarrow> snd (foregroundColor rt args t) = t"
  "fst (labelColor rt args t) = Inl e \<Longrightarrow> snd (labelColor rt args t) = t"
  by (simp_all add: accessor_defs split: if_splits sum.splits)

lemma shine_throw:
  "fst (suppressStripShine args t) = Inl e \<Longrightarrow> snd (suppressStripShine args t) = t"
  by (simp add: accessor_defs split: if_splits jsvalue.splits)

lemma url_throw:
  "fst (webServiceURL rt args t) = Inl e \<Longrightarrow> snd (webServiceURL rt args t) = t"
  by (simp add: accessor_defs split: if_splits option.splits)

lemma accessor_throw_unchanged:
  "fst (accessor rt field args t) = Inl e \<Longrightarrow> snd (accessor rt field args t) = t"
  unfolding accessor_def
  by (simp add: plain_throw color_throw shine_throw url_throw split: if_splits)

lemma field_names_cases:
  "field \<in> set field_names \<longleftrightarrow>
     field = ''passTypeIdentifier'' \<or> field = ''teamIdentifier'' \<or> field = ''backgroundColor''
     \<or> field = ''foregroundColor'' \<or> field = ''labelColor'' \<or> field = ''logoText''
     \<or> field = ''organizationName'' \<or> field = ''groupingIdentifier''
     \<or> field = ''suppressStripShine'' \<or> field = ''webServiceURL''"
  by (simp add: field_names_def)

lemma accessor_getter_state:
  "length args \<noteq> 1 \<Longrightarrow> snd (accessor rt field args t) = t"
  by (simp add: accessor_def accessor_defs)

lemma accessor_invalid:
  "field \<in> set field_names \<Longrightarrow> \<not> spec_valid rt field a \<Longrightarrow>
   \<exists>e. accessor rt field [a] t = (Inl e, t)"
  unfolding field_names_cases
  apply (elim disjE)
  apply (simp_all add: accessor_def accessor_defs spec_valid_def
           split: sum.splits jsvalue.splits option.splits)
  apply auto
  done

lemma accessor_valid:
  "field \<in> set field_names \<Longrightarrow> spec_valid rt field a \<Longrightarrow>
   accessor rt field [a] t =
     (Inr This, t\<lparr>fields_obj := (fields_obj t)(field \<mapsto> spec_stored rt field a)\<rparr>)"
  unfolding field_names_cases
  apply (elim disjE)
  apply (simp_all add: accessor_def accessor_defs spec_valid_def spec_stored_def
           split: sum.splits jsvalue.splits option.splits)
  apply auto
  done

lemma accessor_fields_valid:
  assumes "fields_valid rt t" "field \<in> set field_names"
  shows "fields_valid rt (snd (accessor rt field args t))"
proof (cases "length args = 1")
  case False
  then show ?thesis using assms by (simp add: accessor_getter_state)
next
  case True
  then obtain a where a: "args = [a]" by (cases args) auto
  show ?thesis
  proof (cases "spec_valid rt field a")
    case False
    from accessor_invalid [OF assms(2) this] obtain e where "accessor rt field [a] t = (Inl e, t)"
      by blast
    then show ?thesis using assms a by simp
  next
    case True
    from accessor_valid [OF assms(2) this]
    have "snd (accessor rt field args t) =
            t\<lparr>fields_obj := (fields_obj t)(field \<mapsto> spec_stored rt field a)\<rparr>"
      using a by simp
    then show ?thesis using assms True unfolding fields_valid_def by auto
  qed
qed

lemma keys_fields_obj: "fields_obj (snd (keys rt args t)) = fields_obj t"
  by (simp add: keys_def Let_def)

lemma createPass_state: "snd (createPass args t) = t"
  by (simp add: createPass_def Let_def split: sum.splits)

lemma call_member_fields_obj:
  "field \<notin> set field_names \<Longrightarrow> fields_obj (snd (call_member rt field v t)) = fields_obj t"
  by (simp add: call_member_def keys_fields_obj createPass_state split: sum.splits)

lemma call_member_fields_valid:
  assumes "fields_valid rt t"
  shows "fields_valid rt (snd (call_member rt field v t))"
proof (cases "field \<in> set field_names")
  case True
  then show ?thesis using assms by (simp add: call_member_def accessor_fields_valid)
next
  case False
  then show ?thesis using assms
    by (simp add: call_member_fields_obj fields_valid_def)
qed

lemma apply_fields_fields_valid:
  "fields_valid rt t \<Longrightarrow> apply_fields rt es t = Inr t' \<Longrightarrow> fields_valid rt t'"
proof (induction es arbitrary: t)
  case Nil
  then show ?case by simp
next
  case (Cons kv es)
  obtain k v where kv: "kv = (k, v)" by (cases kv)
  show ?case
  proof (cases "is_function_member k")
    case False
    with Cons kv show ?thesis by simp
  next
    case True
    obtain r t1 where c: "call_member rt k v t = (r, t1)" by (cases "call_member rt k v t")
    with Cons.prems True kv obtain x where "r = Inr x" and "apply_fields rt es t1 = Inr t'"
      by (cases r) auto
    moreover have "fields_valid rt t1"
      using call_member_fields_valid [OF Cons.prems(1), of k v] c by simp
    ultimately show ?thesis using Cons.IH by blast
  qed
qed

lemma Template_new_Inr:
  assumes "Template_new rt h style_arg fields_arg = (Inr t, h')"
  shows "\<exists>s es t0. style_arg = String s \<and> s \<in> set (PASS_STYLES rt)
     \<and> Object_entries (if fields_arg = Undefined then Object [] else fields_arg) = Inr es
     \<and> apply_fields rt es \<lparr>style = s, fields_obj = Map.empty, keysPath = None,
                             password = None, images = None\<rparr> = Inr t0
     \<and> t = t0\<lparr>keysPath := Some (String ''keys''), images := Some (fst (new_PassImages h))\<rparr>
     \<and> h' = snd (new_PassImages h)"
proof (cases style_arg)
  case (String s)
  show ?thesis
  proof (cases "s \<in> set (PASS_STYLES rt)")
    case False
    with assms String show ?thesis by (simp add: Template_new_def)
  next
    case True
    show ?thesis
    proof (cases "Object_entries (if fields_arg = Undefined then Object [] else fields_arg)")
      case (Inl e)
      with assms String True show ?thesis by (simp add: Template_new_def)
    next
      case (Inr es)
      show ?thesis
      proof (cases "apply_fields rt es \<lparr>style = s, fields_obj = Map.empty, keysPath = None,
                             password = None, images = None\<rparr>")
        case (Inl e)
        with assms String True \<open>Object_entries _ = Inr es\<close> show ?thesis
          by (simp add: Template_new_def)
      next
        case (Inr t0)
        with assms String True \<open>Object_entries _ = Inr es\<close> show ?thesis
          by (simp add: Template_new_def)
      qed
    qed
  qed
qed (use assms in \<open>simp_all add: Template_new_def\<close>)

lemma Template_new_fields_valid:
  assumes "Template_new rt h style_arg fields_arg = (Inr t, h')"
  shows "fields_valid rt t"
proof -
  from Template_new_Inr [OF assms] obtain s es t0 where
    a: "apply_fields rt es \<lparr>style = s, fields_obj = Map.empty, keysPath = None,
                             password = None, images = None\<rparr> = Inr t0"
    and t: "t = t0\<lparr>keysPath := Some (String ''keys''), images := Some (fst (new_PassImages h))\<rparr>"
    by blast
  have "fields_valid rt \<lparr>style = s, fields_obj = Map.empty, keysPath = None,
                             password = None, images = None\<rparr>"
    by (simp add: fields_valid_def)
  then have "fields_valid rt t0" using a by (rule apply_fields_fields_valid)
  then show ?thesis using t by (simp add: fields_valid_def)
qed

lemma reachable_fields_valid: "reachable rt t \<Longrightarrow> fields_valid rt t"
proof (induction rule: reachable.induct)
  case (constructed h style_arg fields_arg t h')
  then show ?case by (rule Template_new_fields_valid)
next
  case (accessed t field args)
  then show ?case by (simp add: accessor_fields_valid)
next
  case (keyed t args)
  then show ?case by (simp add: fields_valid_def keys_fields_obj)
next
  case (minted t args)
  then show ?case by (simp add: createPass_state)
qed

section \<open>Auxiliary facts about the colour pattern\<close>

lemma lit_Some: "lit p s = Some s' \<longleftrightarrow> s = p @ s'"
  unfolding lit_def
  by (metis append_eq_conv_conj append_take_drop_id option.inject option.distinct(1))

lemma isdigit_not_isspace: "isdigit c \<Longrightarrow> \<not> isspace c"
  by (auto simp: isdigit_def isspace_def)

lemma spaces_append:
  "list_all isspace w \<Longrightarrow> rest = [] \<or> \<not> isspace (hd rest) \<Longrightarrow> spaces (w @ rest) = rest"
  unfolding spaces_def
  by (cases rest) (auto simp: list_all_iff dropWhile_append2)

lemma spaces_decomp:
  "\<exists>w. s = w @ spaces s \<and> list_all isspace w"
  unfolding spaces_def
  by (rule exI [of _ "takeWhile isspace s"]) (auto simp: list_all_iff dest: set_takeWhileD)

lemma digits13_append:
  "d \<noteq> [] \<Longrightarrow> length d \<le> 3 \<Longrightarrow> list_all isdigit d \<Longrightarrow> rest = [] \<or> \<not> isdigit (hd rest) \<Longrightarrow>
   digits13 (d @ rest) = Some (d, rest)"
proof -
  assume d: "d \<noteq> []" "length d \<le> 3" "list_all isdigit d" and r: "rest = [] \<or> \<not> isdigit (hd rest)"
  have "takeWhile isdigit (take 3 (d @ rest)) = d"
  proof (cases rest)
    case Nil
    have t: "take 3 d = d" using d(2) by simp
    have u: "takeWhile isdigit d = d" using d(3) by (simp add: list_all_iff)
    show ?thesis by (simp only: Nil append_Nil2 t u)
  next
    case (Cons c cs)
    with r have c: "\<not> isdigit c" by simp
    have "take 3 (d @ rest) = d @ take (3 - length d) rest" using d(2) by simp
    moreover have "takeWhile isdigit (d @ take (3 - length d) rest) = d"
      using d c Cons by (cases "3 - length d") (auto simp: list_all_iff takeWhile_append2)
    ultimately show ?thesis by simp
  qed
  then show ?thesis using d by (simp add: digits13_def)
qed

lemma digits13_Some:
  "digits13 s = Some (d, s') \<Longrightarrow> s = d @ s' \<and> d \<noteq> [] \<and> length d \<le> 3 \<and> list_all isdigit d"
proof -
  assume a: "digits13 s = Some (d, s')"
  define e where "e = takeWhile isdigit (take 3 s)"
  from a have e: "e \<noteq> []" "d = e" "s' = drop (length e) s"
    by (auto simp: digits13_def e_def Let_def split: if_splits)
  have "length e \<le> length (take 3 s)" unfolding e_def by (rule length_takeWhile_le)
  then have l: "length e \<le> 3" by simp
  have "e = take (length e) (take 3 s)" unfolding e_def
    by (metis takeWhile_eq_take)
  then have "e = take (length e) s" using l by (simp add: min_def)
  then have "s = e @ drop (length e) s" by (metis append_take_drop_id)
  moreover have "list_all isdigit e" unfolding e_def
    by (auto simp: list_all_iff dest: set_takeWhileD)
  ultimately show ?thesis using e l by simp
qed

lemma color_regex_exec_complete:
  assumes "rgb_pattern s r g b"
  shows "color_regex_exec s = Some (r, g, b)"
proof -
  from assms obtain w1 w2 w3 w4 where
    s: "s = ''rgb('' @ w1 @ r @ '','' @ w2 @ g @ '','' @ w3 @ b @ w4 @ '')''"
    and w: "list_all isspace w1" "list_all isspace w2" "list_all isspace w3" "list_all isspace w4"
    and r: "r \<noteq> []" "length r \<le> 3" "list_all isdigit r"
    and g: "g \<noteq> []" "length g \<le> 3" "list_all isdigit g"
    and b: "b \<noteq> []" "length b \<le> 3" "list_all isdigit b"
    by (auto simp: rgb_pattern_def)
  have comma: "\<not> isdigit CHR '',''" "\<not> isspace CHR '',''" "\<not> isdigit CHR '')''" "\<not> isspace CHR '')''"
    by (simp_all add: isdigit_def isspace_def)
  have hd_digit: "\<And>d x. d \<noteq> [] \<Longrightarrow> list_all isdigit d \<Longrightarrow> \<not> isspace (hd (d @ x))"
    by (auto simp: list_all_iff isdigit_not_isspace)
  have 1: "lit ''rgb('' s = Some (w1 @ r @ '','' @ w2 @ g @ '','' @ w3 @ b @ w4 @ '')'')"
    by (simp add: lit_Some s)
  have 2: "spaces (w1 @ r @ '','' @ w2 @ g @ '','' @ w3 @ b @ w4 @ '')'') = r @ '','' @ w2 @ g @ '','' @ w3 @ b @ w4 @ '')''"
    using w(1) hd_digit [OF r(1,3)] r(1) by (intro spaces_append) auto
  have 3: "digits13 (r @ '','' @ w2 @ g @ '','' @ w3 @ b @ w4 @ '')'') = Some (r, '','' @ w2 @ g @ '','' @ w3 @ b @ w4 @ '')'')"
    using r comma by (intro digits13_append) auto
  have 4: "lit '','' ('','' @ w2 @ g @ '','' @ w3 @ b @ w4 @ '')'') = Some (w2 @ g @ '','' @ w3 @ b @ w4 @ '')'')"
    by (simp add: lit_Some)
  have 5: "spaces (w2 @ g @ '','' @ w3 @ b @ w4 @ '')'') = g @ '','' @ w3 @ b @ w4 @ '')''"
    using w(2) hd_digit [OF g(1,3)] g(1) by (intro spaces_append) auto
  have 6: "digits13 (g @ '','' @ w3 @ b @ w4 @ '')'') = Some (g, '','' @ w3 @ b @ w4 @ '')'')"
    using g comma by (intro digits13_append) auto
  have 7: "lit '','' ('','' @ w3 @ b @ w4 @ '')'') = Some (w3 @ b @ w4 @ '')'')"
    by (simp add: lit_Some)
  have 8: "spaces (w3 @ b @ w4 @ '')'') = b @ w4 @ '')''"
    using w(3) hd_digit [OF b(1,3)] b(1) by (intro spaces_append) auto
  have "w4 @ '')'' = [] \<or> \<not> isdigit (hd (w4 @ '')''))"
    using w(4) comma by (cases w4) (auto simp: isdigit_not_isspace)
  then have 9: "digits13 (b @ w4 @ '')'') = Some (b, w4 @ '')'')"
    using b by (intro digits13_append) auto
  have 10: "spaces (w4 @ '')'') = '')''"
    using w(4) comma by (intro spaces_append) auto
  have 11: "lit '')'' '')'' = Some []"
    by (simp add: lit_Some)
  show ?thesis
    unfolding color_regex_exec_def by (simp only: 1 2 3 4 5 6 7 8 9 10 11 Option.bind.simps prod.case simp_thms if_True)
qed

lemma color_regex_exec_sound:
  assumes "color_regex_exec s = Some (r, g, b)"
  shows "rgb_pattern s r g b"
proof -
  from assms obtain s1 s2 s3 s4 s5 s6 where
    1: "lit ''rgb('' s = Some s1" and 2: "digits13 (spaces s1) = Some (r, s2)"
    and 3: "lit '','' s2 = Some s3" and 4: "digits13 (spaces s3) = Some (g, s4)"
    and 5: "lit '','' s4 = Some s5" and 6: "digits13 (spaces s5) = Some (b, s6)"
    and 7: "lit '')'' (spaces s6) = Some []"
    by (auto simp: color_regex_exec_def bind_eq_Some_conv split: if_splits)
  obtain w1 where w1: "s1 = w1 @ spaces s1" "list_all isspace w1" using spaces_decomp by blast
  obtain w2 where w2: "s3 = w2 @ spaces s3" "list_all isspace w2" using spaces_decomp by blast
  obtain w3 where w3: "s5 = w3 @ spaces s5" "list_all isspace w3" using spaces_decomp by blast
  obtain w4 where w4: "s6 = w4 @ spaces s6" "list_all isspace w4" using spaces_decomp by blast
  note r = digits13_Some [OF 2] and g = digits13_Some [OF 4] and b = digits13_Some [OF 6]
  have e7: "spaces s6 = '')''" using 7 by (simp add: lit_Some)
  have e5: "s4 = '','' @ s5" using 5 by (simp add: lit_Some)
  have e3: "s2 = '','' @ s3" using 3 by (simp add: lit_Some)
  have e1: "s = ''rgb('' @ s1" using 1 by (simp add: lit_Some)
  have "s = ''rgb('' @ w1 @ r @ '','' @ w2 @ g @ '','' @ w3 @ b @ w4 @ '')''"
    using e1 w1(1) r e3 w2(1) g e5 w3(1) b w4(1) e7 by (metis append.assoc)
  then show ?thesis
    unfolding rgb_pattern_def using w1 w2 w3 w4 r g b
    by (intro exI [of _ w1] exI [of _ w2] exI [of _ w3] exI [of _ w4]) simp
qed

section \<open>Auxiliary facts about the colour validator\<close>

lemma decimal_foldl_nonneg:
  "list_all isdigit d \<Longrightarrow> 0 \<le> a \<Longrightarrow> 0 \<le> foldl (\<lambda>a c. 10 * a + digit_val c) a d"
proof (induction d arbitrary: a)
  case Nil
  then show ?case by simp
next
  case (Cons c d)
  then have "0 \<le> 10 * a + digit_val c" by (simp add: isdigit_def digit_val_def)
  with Cons show ?case by simp
qed

lemma decimal_nonneg: "list_all isdigit d \<Longrightarrow> 0 \<le> decimal d"
  unfolding decimal_def by (rule decimal_foldl_nonneg) simp_all

lemma parseInt10_digits:
  assumes "d \<noteq> []" "list_all isdigit d"
  shows "parseInt10 d = Some (decimal d)"
proof -
  from assms obtain c cs where d: "d = c # cs" and c: "isdigit c" by (cases d) auto
  from c have ns: "\<not> isspace c" by (rule isdigit_not_isspace)
  from c have sg: "c \<noteq> CHR ''-''" "c \<noteq> CHR ''+''" by (auto simp: isdigit_def)
  have t: "takeWhile isdigit d = d" using assms(2) by (simp add: list_all_iff)
  have "dropWhile isspace d = d" using d ns by simp
  then show ?thesis using d sg t assms(1) by (simp add: parseInt10_def Let_def)
qed

lemma bad_component_digits:
  "d \<noteq> [] \<Longrightarrow> list_all isdigit d \<Longrightarrow> bad_component (parseInt10 d) \<longleftrightarrow> 255 < decimal d"
  using decimal_nonneg [of d] by (simp add: parseInt10_digits bad_component_def)

lemma validateColorValue_pattern:
  assumes "rgb_pattern s r g b"
  shows "validateColorValue rt (String s) =
           (if 255 < decimal r \<or> 255 < decimal g \<or> 255 < decimal b
            then Inl (InvalidColorValue (String s)) else Inr ())"
proof -
  from assms have d: "r \<noteq> []" "list_all isdigit r" "g \<noteq> []" "list_all isdigit g"
      "b \<noteq> []" "list_all isdigit b"
    by (auto simp: rgb_pattern_def)
  have "color_regex_exec s = Some (r, g, b)" using assms by (rule color_regex_exec_complete)
  then show ?thesis
    by (simp add: validateColorValue_def bad_component_digits d)
qed

lemma validateColorValue_no_pattern:
  assumes "\<forall>r g b. \<not> rgb_pattern s r g b"
  shows "validateColorValue rt (String s) = Inl TypeError"
proof (cases "color_regex_exec s")
  case None
  then show ?thesis by (simp add: validateColorValue_def)
next
  case (Some rgb)
  obtain r g b where "rgb = (r, g, b)" by (cases rgb)
  with Some have "rgb_pattern s r g b" by (simp add: color_regex_exec_sound)
  with assms show ?thesis by simp
qed

lemma validateColorValue_ok_iff:
  "validateColorValue rt (String s) = Inr () \<longleftrightarrow>
     (\<exists>r g b. rgb_pattern s r g b \<and> decimal r \<le> 255 \<and> decimal g \<le> 255 \<and> decimal b \<le> 255)"
proof
  assume ok: "validateColorValue rt (String s) = Inr ()"
  have "\<not> (\<forall>r g b. \<not> rgb_pattern s r g b)"
    using validateColorValue_no_pattern [of s rt] ok by auto
  then obtain r g b where p: "rgb_pattern s r g b" by auto
  from validateColorValue_pattern [OF p, of rt] ok
  have "decimal r \<le> 255 \<and> decimal g \<le> 255 \<and> decimal b \<le> 255"
    by (auto split: if_splits)
  with p show "\<exists>r g b. rgb_pattern s r g b \<and> decimal r \<le> 255 \<and> decimal g \<le> 255 \<and> decimal b \<le> 255"
    by auto
next
  assume "\<exists>r g b. rgb_pattern s r g b \<and> decimal r \<le> 255 \<and> decimal g \<le> 255 \<and> decimal b \<le> 255"
  then obtain r g b where "rgb_pattern s r g b" "decimal r \<le> 255" "decimal g \<le> 255" "decimal b \<le> 255"
    by auto
  then show "validateColorValue rt (String s) = Inr ()"
    by (simp add: validateColorValue_pattern)
qed

section \<open>The example Template, and the invariant of the reachable states\<close>

lemmas color_eval = validateColorValue_def color_regex_exec_def lit_def spaces_def digits13_def
  isspace_def isdigit_def parseInt10_def decimal_def digit_val_def bad_component_def

lemma af1: "apply_fields example_runtime example_definition
    \<lparr>style = ''eventTicket'', fields_obj = Map.empty, keysPath = None, password = None, images = None\<rparr>
   = Inr (example_template\<lparr>keysPath := None, images := None\<rparr>)"
  by (simp add: example_runtime_def example_definition_def
        is_function_member_def field_names_def
        Object_prototype_functions_def call_member_def accessor_def accessor_defs to_URL_def
        href_def color_eval example_template_def)


lemma example_template_constructed:
  "Template_new example_runtime empty_heap (String ''eventTicket'') (Object example_definition) =
     (Inr example_template, example_heap)"
proof -
  have s: "''eventTicket'' \<in> set (PASS_STYLES example_runtime)"
    by (simp add: example_runtime_def)
  have e: "Object_entries (if Object example_definition = Undefined then Object []
                           else Object example_definition) = Inr example_definition"
    by (simp add: Object_entries_def own_entries_def)
  show ?thesis
    unfolding Template_new_def
    by (simp only: jsvalue.case s if_True e sum.case af1 prod.case)
       (simp add: example_template_def example_heap_def new_PassImages_def empty_heap_def)
qed


lemma example_template_reachable: "reachable example_runtime example_template"
  by (rule reachable.constructed [OF example_template_constructed])



lemma fields_validD:
  "fields_valid rt t \<Longrightarrow> fields_obj t field = Some v \<Longrightarrow>
   field \<in> set field_names \<and> (\<exists>a. spec_valid rt field a \<and> v = spec_stored rt field a)"
  unfolding fields_valid_def by (elim allE [of _ "field"] allE [of _ v] impE) assumption+

lemma spec_valid_url:
  "spec_valid rt ''webServiceURL'' a \<Longrightarrow> \<exists>u. to_URL rt a = Some u \<and> protocol u = ''https:''"
  by (cases "to_URL rt a") (simp_all add: spec_valid_def)

lemma spec_stored_url:
  "to_URL rt a = Some u \<Longrightarrow> spec_stored rt ''webServiceURL'' a = String (href u)"
  by (simp add: spec_stored_def)

lemma webServiceURL_stored:
  assumes "fields_valid rt t" and "fields_obj t ''webServiceURL'' = Some w"
  shows "\<exists>r. w = String (''https:'' @ r)"
proof -
  have "\<exists>a. spec_valid rt ''webServiceURL'' a \<and> w = spec_stored rt ''webServiceURL'' a"
    by (rule fields_validD [OF assms, THEN conjunct2])
  then obtain a where v: "spec_valid rt ''webServiceURL'' a"
    and w: "w = spec_stored rt ''webServiceURL'' a" by auto
  from spec_valid_url [OF v] obtain u where u: "to_URL rt a = Some u" "protocol u = ''https:''"
    by auto
  have "w = String (href u)"
    by (simp only: w spec_stored_url [OF u(1)])
  then have c: "w = String (''https:'' @ after_protocol u)"
    by (simp only: href_def u(2))
  show ?thesis by (rule exI [of _ "after_protocol u"]) (rule c)
qed

section \<open>Auxiliary facts about merging objects\<close>







section \<open>Auxiliary facts about loading\<close>

lemma has_property_Object:
  "k \<notin> set Object_prototype_names \<Longrightarrow>
   has_property rt k (Object kvs) = Inr (k \<in> set (map fst kvs))"
  by (simp add: has_property_def)

lemma detect_style_find:
  "set styles \<inter> set Object_prototype_names = {} \<Longrightarrow>
   detect_style rt styles (Object kvs) =
     (case find (\<lambda>s. s \<in> set (map fst kvs)) styles of
        None \<Rightarrow> Inl UnknownPassStyle
      | Some s \<Rightarrow> Inr s)"
proof (induction styles)
  case Nil
  then show ?case by simp
next
  case (Cons t ts)
  from Cons.prems have t: "t \<notin> set Object_prototype_names"
    and ts: "set ts \<inter> set Object_prototype_names = {}" by auto
  show ?case using Cons.IH [OF ts] by (simp add: has_property_Object [OF t])
qed

lemma keys_style: "style (snd (keys rt args t)) = style t"
  by (simp add: keys_def Let_def)

lemma setter_style:
  "style (snd (passTypeIdentifier args t)) = style t"
  "style (snd (teamIdentifier args t)) = style t"
  "style (snd (backgroundColor args t)) = style t"
  "style (snd (foregroundColor rt args t)) = style t"
  "style (snd (labelColor rt args t)) = style t"
  "style (snd (logoText args t)) = style t"
  "style (snd (organizationName args t)) = style t"
  "style (snd (groupingIdentifier args t)) = style t"
  "style (snd (suppressStripShine args t)) = style t"
  "style (snd (webServiceURL rt args t)) = style t"
  by (simp_all add: accessor_defs split: sum.splits jsvalue.splits option.splits)

lemma accessor_style: "style (snd (accessor rt field args t)) = style t"
  by (simp add: accessor_def setter_style)

lemma call_member_style: "style (snd (call_member rt field v t)) = style t"
  by (simp add: call_member_def accessor_style keys_style createPass_state split: sum.splits)

lemma apply_fields_style: "apply_fields rt es t = Inr t' \<Longrightarrow> style t' = style t"
proof (induction es arbitrary: t)
  case Nil
  then show ?case by simp
next
  case (Cons kv es)
  obtain k v where kv: "kv = (k, v)" by (cases kv)
  show ?case
  proof (cases "is_function_member k")
    case False
    with Cons kv show ?thesis by simp
  next
    case True
    obtain r t1 where c: "call_member rt k v t = (r, t1)" by (cases "call_member rt k v t")
    with Cons.prems True kv obtain x where "r = Inr x" and a: "apply_fields rt es t1 = Inr t'"
      by (cases r) auto
    have "style t1 = style t" using call_member_style [of rt k v t] c by simp
    with Cons.IH [OF a] show ?thesis by simp
  qed
qed

lemma Template_new_style:
  assumes "Template_new rt h (String s) fields_arg = (Inr t, h')"
  shows "style t = s"
proof -
  from Template_new_Inr [OF assms] obtain es t0 where
    a: "apply_fields rt es \<lparr>style = s, fields_obj = Map.empty, keysPath = None,
                             password = None, images = None\<rparr> = Inr t0"
    and t: "t = t0\<lparr>keysPath := Some (String ''keys''), images := Some (fst (new_PassImages h))\<rparr>"
    by auto
  from apply_fields_style [OF a] t show ?thesis by simp
qed

lemma probe_key_style: "style (probe_key rt folderPath keyPassword name t) = style t"
  by (simp add: probe_key_def keys_style split: sum.splits)

lemma load_after_read:
  assumes "definition_read rt folderPath kvs"
  shows "load rt h folderPath keyPassword =
     (case detect_style rt (PASS_STYLES rt) (Object kvs) of
        Inl e \<Rightarrow> (Inl e, h)
      | Inr type \<Rightarrow>
     (case Template_new rt h (String type) (Object kvs) of
        (Inl e, h1) \<Rightarrow> (Inl e, h1)
      | (Inr t, h1) \<Rightarrow>
     (case images t of
        None \<Rightarrow> (Inl TypeError, h1)
      | Some r \<Rightarrow>
     (case cells h1 r of
        None \<Rightarrow> (Inl TypeError, h1)
      | Some imgs \<Rightarrow>
     (case loadFromDirectory rt imgs folderPath of
        Inl e \<Rightarrow> (Inl e, h1)
      | Inr imgs' \<Rightarrow>
     (case typeIdentifier_string (Object kvs) of
        None \<Rightarrow> (Inl TypeError, h1\<lparr>cells := (cells h1)(r \<mapsto> imgs')\<rparr>)
      | Some typeIdentifier \<Rightarrow>
          (Inr (probe_key rt folderPath keyPassword (keyName typeIdentifier) t),
           h1\<lparr>cells := (cells h1)(r \<mapsto> imgs')\<rparr>)))))))"
proof -
  from assms obtain st content where
    "statAsync rt folderPath = Inr st" "isDirectory st"
    "readFileAsync rt (path_join rt folderPath ''pass.json'') = Inr content"
    "JSON_parse rt content = Inr (Object kvs)"
    unfolding definition_read_def by (elim exE conjE)
  then show ?thesis unfolding load_def by (simp only: sum.case if_True if_False simp_thms)
qed

lemma Template_new_images:
  assumes "Template_new rt h style_arg fields_arg = (Inr t, h')"
  shows "images t = Some (lim h) \<and> cells h' (lim h) = Some (PassImages [])"
proof -
  from Template_new_Inr [OF assms] obtain t0 where
    "t = t0\<lparr>keysPath := Some (String ''keys''), images := Some (fst (new_PassImages h))\<rparr>"
    and "h' = snd (new_PassImages h)"
    by auto
  then show ?thesis by (simp add: new_PassImages_def)
qed

lemma load_after_new:
  assumes "definition_read rt folderPath kvs"
    and "detect_style rt (PASS_STYLES rt) (Object kvs) = Inr type"
    and "Template_new rt h (String type) (Object kvs) = (Inr t, h1)"
  shows "load rt h folderPath keyPassword =
     (case loadFromDirectory rt (PassImages []) folderPath of
        Inl e \<Rightarrow> (Inl e, h1)
      | Inr imgs' \<Rightarrow>
     (case typeIdentifier_string (Object kvs) of
        None \<Rightarrow> (Inl TypeError, h1\<lparr>cells := (cells h1)(lim h \<mapsto> imgs')\<rparr>)
      | Some typeIdentifier \<Rightarrow>
          (Inr (probe_key rt folderPath keyPassword (keyName typeIdentifier) t),
           h1\<lparr>cells := (cells h1)(lim h \<mapsto> imgs')\<rparr>)))"
  using Template_new_images [OF assms(3)]
  by (simp only: load_after_read [OF assms(1)] assms(2,3) sum.case prod.case option.case)

lemma load_unknown_style:
  assumes "definition_read rt folderPath kvs"
    and "detect_style rt (PASS_STYLES rt) (Object kvs) = Inl e"
  shows "load rt h folderPath keyPassword = (Inl e, h)"
  by (simp only: load_after_read [OF assms(1)] assms(2) sum.case)

lemma load_style:
  assumes "definition_read rt folderPath kvs"
    and "load rt h folderPath keyPassword = (Inr t, h')"
  shows "detect_style rt (PASS_STYLES rt) (Object kvs) = Inr (style t)"
proof (cases "detect_style rt (PASS_STYLES rt) (Object kvs)")
  case (Inl e)
  from load_unknown_style [OF assms(1) this] assms(2) show ?thesis by simp
next
  case (Inr type)
  obtain r h1 where n: "Template_new rt h (String type) (Object kvs) = (r, h1)"
    by (cases "Template_new rt h (String type) (Object kvs)")
  show ?thesis
  proof (cases r)
    case (Inl e)
    have "load rt h folderPath keyPassword = (Inl e, h1)"
      by (simp only: load_after_read [OF assms(1)] Inr n Inl sum.case prod.case)
    with assms(2) show ?thesis by simp
  next
    case r: (Inr t0)
    with n have n': "Template_new rt h (String type) (Object kvs) = (Inr t0, h1)" by simp
    then have s: "style t0 = type" by (rule Template_new_style)
    from load_after_new [OF assms(1) Inr n', of keyPassword] assms(2)
    have "\<exists>tid. t = probe_key rt folderPath keyPassword (keyName tid) t0"
      by (cases "loadFromDirectory rt (PassImages []) folderPath";
          cases "typeIdentifier_string (Object kvs)") auto
    then show ?thesis using s Inr by (auto simp: probe_key_style)
  qed
qed


lemma example_registry:
  "set (PASS_STYLES example_runtime) \<inter> set Object_prototype_names = {}"
  by (simp add: example_runtime_def Object_prototype_names_def Object_prototype_functions_def)

lemma example_read_event: "definition_read example_runtime ''Event.pass'' example_definition"
  unfolding definition_read_def
  by (rule exI [of _ "\<lparr>isDirectory = True, isFile = False\<rparr>"], rule exI [of _ "''event''"])
     (simp add: example_runtime_def)

lemma example_read_plain:
  "definition_read example_runtime ''Plain.pass'' [(''description'', String ''none'')]"
  unfolding definition_read_def
  by (rule exI [of _ "\<lparr>isDirectory = True, isFile = False\<rparr>"], rule exI [of _ "''plain''"])
     (simp add: example_runtime_def)

lemma example_detect_event:
  "detect_style example_runtime (PASS_STYLES example_runtime) (Object example_definition)
     = Inr ''eventTicket''"
  by (simp add: detect_style_find [OF example_registry])
     (simp add: example_runtime_def example_definition_def)

lemma example_load_event:
  "load example_runtime empty_heap ''Event.pass'' Undefined =
     (Inr (example_template\<lparr>keysPath := Some (String ''Event.pass'')\<rparr>),
      example_heap\<lparr>cells := (cells example_heap)(0 \<mapsto> PassImages [(''icon.png'', ''Event.pass'')])\<rparr>)"
proof -
  have l: "loadFromDirectory example_runtime (PassImages []) ''Event.pass''
             = Inr (PassImages [(''icon.png'', ''Event.pass'')])"
    by (simp add: example_runtime_def)
  have i: "typeIdentifier_string (Object example_definition) = Some ''pass.com.example.event''"
    by (simp add: typeIdentifier_string_def example_definition_def)
  have k: "keyName ''pass.com.example.event'' = ''com.example.event.pem''"
    by (simp add: keyName_def)
  have p: "probe_key example_runtime ''Event.pass'' Undefined ''com.example.event.pem'' example_template
             = example_template\<lparr>keysPath := Some (String ''Event.pass'')\<rparr>"
    by (simp add: probe_key_def example_runtime_def keys_def arg_def truthy_def)
  have z: "lim empty_heap = 0" by (simp add: empty_heap_def)
  show ?thesis
    by (simp only: load_after_new [OF example_read_event example_detect_event
                     example_template_constructed] l i k p z sum.case option.case)
qed

section \<open>Auxiliary facts about the construction from a definition object\<close>

lemma call_member_field:
  assumes "field \<in> set field_names" and "spec_valid rt field v"
  shows "call_member rt field v t =
           (Inr This, t\<lparr>fields_obj := (fields_obj t)(field \<mapsto> spec_stored rt field v)\<rparr>)"
  using assms by (simp add: call_member_def accessor_valid)

lemma apply_fields_result:
  "distinct (map fst kvs) \<Longrightarrow> entries_accepted rt kvs \<Longrightarrow>
   \<exists>t'. apply_fields rt kvs t = Inr t' \<and> style t' = style t \<and> password t' = password t
        \<and> images t' = images t
        \<and> fields_obj t' =
            (\<lambda>k. if k \<in> set field_names \<and> map_of kvs k \<noteq> None
                 then map_option (spec_stored rt k) (map_of kvs k) else fields_obj t k)"
proof (induction kvs arbitrary: t)
  case Nil
  then show ?case by simp
next
  case (Cons kv kvs)
  obtain k v where kv: "kv = (k, v)" by (cases kv)
  from Cons.prems kv have d: "distinct (map fst kvs)" and nk: "map_of kvs k = None"
    and acc: "entries_accepted rt kvs"
    and ok: "k \<in> set field_names \<longrightarrow> spec_valid rt k v"
    and nt: "k \<notin> set field_names \<longrightarrow> \<not> is_function_member k"
    by (simp_all add: entries_accepted_def map_of_eq_None_iff)
  show ?case
  proof (cases "is_function_member k")
    case False
    then have nf: "k \<notin> set field_names" by (simp add: is_function_member_def)
    from Cons.IH [OF d acc, of t] obtain t' where
      t': "apply_fields rt kvs t = Inr t'" "style t' = style t" "password t' = password t"
        "images t' = images t"
        "fields_obj t' =
            (\<lambda>x. if x \<in> set field_names \<and> map_of kvs x \<noteq> None
                 then map_option (spec_stored rt x) (map_of kvs x) else fields_obj t x)"
      by (elim exE conjE)
    have "fields_obj t' =
            (\<lambda>x. if x \<in> set field_names \<and> map_of (kv # kvs) x \<noteq> None
                 then map_option (spec_stored rt x) (map_of (kv # kvs) x) else fields_obj t x)"
      using t'(5) nf kv by (auto simp: fun_eq_iff)
    moreover have "apply_fields rt (kv # kvs) t = Inr t'" using False kv t'(1) by simp
    ultimately show ?thesis using t'(2,3,4) by (intro exI [of _ t'] conjI)
  next
    case True
    show ?thesis
    proof (cases "k \<in> set field_names")
      case kf: True
      define t1 where "t1 = t\<lparr>fields_obj := (fields_obj t)(k \<mapsto> spec_stored rt k v)\<rparr>"
      from kf ok have c: "call_member rt k v t = (Inr This, t1)"
        unfolding t1_def by (simp add: call_member_field)
      from Cons.IH [OF d acc, of t1] obtain t' where
        t': "apply_fields rt kvs t1 = Inr t'" "style t' = style t1" "password t' = password t1"
          "images t' = images t1"
          "fields_obj t' =
              (\<lambda>x. if x \<in> set field_names \<and> map_of kvs x \<noteq> None
                   then map_option (spec_stored rt x) (map_of kvs x) else fields_obj t1 x)"
        by (elim exE conjE)
      have "fields_obj t' =
              (\<lambda>x. if x \<in> set field_names \<and> map_of (kv # kvs) x \<noteq> None
                   then map_option (spec_stored rt x) (map_of (kv # kvs) x) else fields_obj t x)"
        using t'(5) kf kv nk by (auto simp: fun_eq_iff t1_def)
      moreover have "apply_fields rt (kv # kvs) t = Inr t'" using True kv c t'(1) by simp
      moreover have "style t' = style t" "password t' = password t" "images t' = images t"
        using t'(2,3,4) by (simp_all add: t1_def)
      ultimately show ?thesis by (intro exI [of _ t'] conjI)
    next
      case nf: False
      with nt True show ?thesis by simp
    qed
  qed
qed


lemma Template_new_Object:
  assumes "s \<in> set (PASS_STYLES rt)" "distinct (map fst kvs)" "entries_accepted rt kvs"
  shows "\<exists>t. Template_new rt h (String s) (Object kvs) = (Inr t, snd (new_PassImages h))
           \<and> style t = s \<and> fields_obj t = recognised_fields rt kvs"
proof -
  define t0 where "t0 = \<lparr>style = s, fields_obj = Map.empty, keysPath = None,
                             password = None, images = None\<rparr>"
  from apply_fields_result [OF assms(2,3), of t0] obtain t' where
    a: "apply_fields rt kvs t0 = Inr t'" and st: "style t' = style t0"
    and f: "fields_obj t' =
            (\<lambda>k. if k \<in> set field_names \<and> map_of kvs k \<noteq> None
                 then map_option (spec_stored rt k) (map_of kvs k) else fields_obj t0 k)"
    by (elim exE conjE)
  have e: "Object_entries (if Object kvs = Undefined then Object [] else Object kvs) = Inr kvs"
    by (simp add: Object_entries_def own_entries_def)
  have "Template_new rt h (String s) (Object kvs) =
          (Inr (t'\<lparr>keysPath := Some (String ''keys''), images := Some (fst (new_PassImages h))\<rparr>),
           snd (new_PassImages h))"
    unfolding Template_new_def
    by (simp only: jsvalue.case assms(1) if_True e sum.case a [unfolded t0_def])
  moreover have "fields_obj t' = recognised_fields rt kvs"
    unfolding f recognised_fields_def by (auto simp: fun_eq_iff t0_def)
  ultimately show ?thesis using st
    by (intro exI [of _ "t'\<lparr>keysPath := Some (String ''keys''),
                          images := Some (fst (new_PassImages h))\<rparr>"]) (simp add: t0_def)
qed

lemma find_unique:
  "x \<in> set xs \<Longrightarrow> P x \<Longrightarrow> \<forall>y \<in> set xs. P y \<longrightarrow> y = x \<Longrightarrow> find P xs = Some x"
proof (induction xs)
  case Nil
  then show ?case by simp
next
  case (Cons a xs)
  show ?case
  proof (cases "P a")
    case True
    with Cons.prems(3) have "a = x" by simp
    with True show ?thesis by simp
  next
    case False
    with Cons.prems(1,2) have m: "x \<in> set xs" by auto
    from Cons.prems(3) have u: "\<forall>y \<in> set xs. P y \<longrightarrow> y = x" by simp
    from Cons.IH [OF m Cons.prems(2) u] False show ?thesis by simp
  qed
qed

lemma probe_key_fields_obj:
  "fields_obj (probe_key rt folderPath keyPassword name t) = fields_obj t"
  by (simp add: probe_key_def keys_fields_obj split: sum.splits)

lemma load_read_failure:
  assumes "statAsync rt folderPath = Inr st" and "isDirectory st"
    and "readFileAsync rt (path_join rt folderPath ''pass.json'') = Inl e"
  shows "load rt h folderPath keyPassword = (Inl e, h)"
  unfolding load_def using assms(2)
  by (simp only: assms(1,3) sum.case if_True if_False simp_thms)

lemma load_parse_failure:
  assumes "statAsync rt folderPath = Inr st" and "isDirectory st"
    and "readFileAsync rt (path_join rt folderPath ''pass.json'') = Inr content"
    and "JSON_parse rt content = Inl e"
  shows "load rt h folderPath keyPassword = (Inl e, h)"
  unfolding load_def using assms(2)
  by (simp only: assms(1,3,4) sum.case if_True if_False simp_thms)

lemma load_event_ticket:
  assumes reg: "set (PASS_STYLES rt) \<inter> set Object_prototype_names = {}"
    and rd: "definition_read rt folderPath kvs"
    and dist: "distinct (map fst kvs)"
    and st: "''eventTicket'' \<in> set (PASS_STYLES rt)"
    and key: "''eventTicket'' \<in> set (map fst kvs)"
    and one: "\<forall>s \<in> set (PASS_STYLES rt). s \<in> set (map fst kvs) \<longrightarrow> s = ''eventTicket''"
    and acc: "entries_accepted rt kvs"
    and img: "loadFromDirectory rt (PassImages []) folderPath = Inr imgs"
    and tid: "map_of kvs ''passTypeIdentifier'' = Some (String tid)"
  shows "\<exists>t h'. load rt h folderPath keyPassword = (Inr t, h') \<and> style t = ''eventTicket''
           \<and> fields_obj t = recognised_fields rt kvs"
proof -
  have "find (\<lambda>s. s \<in> set (map fst kvs)) (PASS_STYLES rt) = Some ''eventTicket''"
    by (rule find_unique [of "''eventTicket''" "PASS_STYLES rt" "\<lambda>s. s \<in> set (map fst kvs)",
                          OF st key one])
  then have d: "detect_style rt (PASS_STYLES rt) (Object kvs) = Inr ''eventTicket''"
    by (simp only: detect_style_find [OF reg] option.case)
  from Template_new_Object [OF st dist acc, of h] obtain t where
    n: "Template_new rt h (String ''eventTicket'') (Object kvs) = (Inr t, snd (new_PassImages h))"
    and s: "style t = ''eventTicket''" and f: "fields_obj t = recognised_fields rt kvs"
    by (elim exE conjE)
  have i: "typeIdentifier_string (Object kvs) = Some tid"
    by (simp add: typeIdentifier_string_def tid)
  have "load rt h folderPath keyPassword =
          (Inr (probe_key rt folderPath keyPassword (keyName tid) t),
           (snd (new_PassImages h))\<lparr>cells := (cells (snd (new_PassImages h)))(lim h \<mapsto> imgs)\<rparr>)"
    by (simp only: load_after_new [OF rd d n] img i sum.case option.case)
  then show ?thesis using s f
    by (intro exI [of _ "probe_key rt folderPath keyPassword (keyName tid) t"]
              exI [of _ "(snd (new_PassImages h))\<lparr>cells := (cells (snd (new_PassImages h)))(lim h \<mapsto> imgs)\<rparr>"])
       (simp add: probe_key_style probe_key_fields_obj)
qed

lemma example_entries_accepted: "entries_accepted example_runtime example_definition"
  by (simp add: entries_accepted_def example_definition_def field_names_def spec_valid_def
        to_URL_def example_runtime_def color_eval is_function_member_def
        Object_prototype_functions_def)

section \<open>The example bundle without an identifier\<close>

lemma example_read_bare:
  "definition_read example_runtime ''Bare.pass'' [(''eventTicket'', Object [])]"
  unfolding definition_read_def
  by (rule exI [of _ "\<lparr>isDirectory = True, isFile = False\<rparr>"], rule exI [of _ "''bare''"])
     (simp add: example_runtime_def)

lemma example_detect_bare:
  "detect_style example_runtime (PASS_STYLES example_runtime) (Object [(''eventTicket'', Object [])])
     = Inr ''eventTicket''"
  by (simp add: detect_style_find [OF example_registry])
     (simp add: example_runtime_def)

lemma example_new_bare:
  "Template_new example_runtime empty_heap (String ''eventTicket'')
       (Object [(''eventTicket'', Object [])]) =
     (Inr \<lparr>style = ''eventTicket'', fields_obj = Map.empty, keysPath = Some (String ''keys''),
           password = None, images = Some 0\<rparr>,
      example_heap)"
  by (simp add: Template_new_def example_runtime_def Object_entries_def own_entries_def
        is_function_member_def field_names_def Object_prototype_functions_def
        new_PassImages_def empty_heap_def example_heap_def)

section \<open>A loaded Template is a reachable state\<close>

lemma probe_key_reachable:
  "reachable rt t \<Longrightarrow> reachable rt (probe_key rt folderPath keyPassword name t)"
  by (simp add: probe_key_def reachable.keyed split: sum.splits)

lemma load_reachable:
  assumes "load rt h folderPath keyPassword = (Inr t, h')"
  shows "reachable rt t"
proof -
  from assms obtain type passJson t0 h1 name where
    n: "Template_new rt h (String type) passJson = (Inr t0, h1)"
    and t: "t = probe_key rt folderPath keyPassword name t0"
    unfolding load_def
    by (auto split: sum.splits if_splits option.splits prod.splits)
  from n have "reachable rt t0" by (rule reachable.constructed)
  then show ?thesis unfolding t by (rule probe_key_reachable)
qed

section \<open>Properties of the Template\<close>

text \<open>
  C10. Called with no argument, the accessor of every recognised field returns the value
  stored under the field's name, or \<^verbatim>\<open>undefined\<close> when nothing is stored, and the Template
  (style, fields, keysPath, password, images) is the same afterwards.
\<close>

theorem accessor_without_arguments:
  "field \<in> set field_names \<Longrightarrow>
   accessor rt field [] t =
     (Inr (Value (case fields_obj t field of None \<Rightarrow> Undefined | Some v \<Rightarrow> v)), t)"
  unfolding field_names_cases
  by (elim disjE) (simp_all add: accessor_def accessor_defs read_field_def)

theorem accessor_without_arguments_witness:
  "''logoText'' \<in> set field_names \<and>
   accessor example_runtime ''logoText'' []
     \<lparr>style = ''coupon'', fields_obj = [''logoText'' \<mapsto> String ''X''],
      keysPath = Some (String ''keys''), password = None, images = Some 0\<rparr> =
     (Inr (Value (String ''X'')),
      \<lparr>style = ''coupon'', fields_obj = [''logoText'' \<mapsto> String ''X''],
       keysPath = Some (String ''keys''), password = None, images = Some 0\<rparr>)
   \<and> accessor example_runtime ''labelColor'' []
     \<lparr>style = ''coupon'', fields_obj = [''logoText'' \<mapsto> String ''X''],
      keysPath = Some (String ''keys''), password = None, images = Some 0\<rparr> =
     (Inr (Value Undefined),
      \<lparr>style = ''coupon'', fields_obj = [''logoText'' \<mapsto> String ''X''],
       keysPath = Some (String ''keys''), password = None, images = Some 0\<rparr>)"
  using accessor_without_arguments [of "''logoText''" example_runtime
     "\<lparr>style = ''coupon'', fields_obj = [''logoText'' \<mapsto> String ''X''],
      keysPath = Some (String ''keys''), password = None, images = Some 0\<rparr>"]
    accessor_without_arguments [of "''labelColor''" example_runtime
     "\<lparr>style = ''coupon'', fields_obj = [''logoText'' \<mapsto> String ''X''],
      keysPath = Some (String ''keys''), password = None, images = Some 0\<rparr>"]
  by (simp add: field_names_def)

text \<open>
  C8. For a style that is not in the registry the construction throws and yields no
  Template (the store is untouched): the error is the unsupported-style error for every
  string, and for every other value unless its conversion to a string for the message
  throws, in which case it is the error of the conversion. For a style of the registry,
  the construction without initial fields (the argument omitted, or an empty object)
  yields a Template with that style, an empty field mapping, \<^verbatim>\<open>keysPath\<close> equal to
  \<^verbatim>\<open>'keys'\<close>, no password, and a new, empty image collection.
\<close>

theorem Template_new_style_and_defaults:
  "(style_arg \<notin> String ` set (PASS_STYLES rt) \<longrightarrow>
      Template_new rt h style_arg fields_arg =
        (Inl (case ToString rt style_arg of
                Inl e \<Rightarrow> e
              | Inr message \<Rightarrow> UnsupportedPassStyle style_arg), h))
   \<and> (tag \<notin> set (PASS_STYLES rt) \<longrightarrow>
      Template_new rt h (String tag) fields_arg = (Inl (UnsupportedPassStyle (String tag)), h))
   \<and> (s \<in> set (PASS_STYLES rt) \<longrightarrow>
      Template_new rt h (String s) Undefined =
        (Inr \<lparr>style = s, fields_obj = Map.empty, keysPath = Some (String ''keys''),
              password = None, images = Some (lim h)\<rparr>,
         h\<lparr>cells := (cells h)(lim h \<mapsto> PassImages []), lim := Suc (lim h)\<rparr>)
      \<and> Template_new rt h (String s) (Object []) = Template_new rt h (String s) Undefined)"
proof (intro conjI impI)
  assume "style_arg \<notin> String ` set (PASS_STYLES rt)"
  then show "Template_new rt h style_arg fields_arg =
        (Inl (case ToString rt style_arg of
                Inl e \<Rightarrow> e
              | Inr message \<Rightarrow> UnsupportedPassStyle style_arg), h)"
    by (cases style_arg) (auto simp: Template_new_def unsupported_style_def)
next
  assume "tag \<notin> set (PASS_STYLES rt)"
  then show "Template_new rt h (String tag) fields_arg = (Inl (UnsupportedPassStyle (String tag)), h)"
    by (simp add: Template_new_def unsupported_style_def)
next
  assume "s \<in> set (PASS_STYLES rt)"
  then show "Template_new rt h (String s) Undefined =
        (Inr \<lparr>style = s, fields_obj = Map.empty, keysPath = Some (String ''keys''),
              password = None, images = Some (lim h)\<rparr>,
         h\<lparr>cells := (cells h)(lim h \<mapsto> PassImages []), lim := Suc (lim h)\<rparr>)"
    by (simp add: Template_new_def Object_entries_def own_entries_def new_PassImages_def)
next
  assume "s \<in> set (PASS_STYLES rt)"
  then show "Template_new rt h (String s) (Object []) = Template_new rt h (String s) Undefined"
    by (simp add: Template_new_def Object_entries_def own_entries_def)
qed

theorem Template_new_style_and_defaults_witness:
  "Object [(''toString'', String ''x'')] \<notin> String ` set (PASS_STYLES example_runtime)
   \<and> Template_new example_runtime empty_heap (Object [(''toString'', String ''x'')]) (Object []) =
       (Inl TypeError, empty_heap)
   \<and> Template_new example_runtime empty_heap Null (Object []) =
       (Inl (UnsupportedPassStyle Null), empty_heap)
   \<and> ''ticket'' \<notin> set (PASS_STYLES example_runtime)
   \<and> Template_new example_runtime empty_heap (String ''ticket'') (Object []) =
       (Inl (UnsupportedPassStyle (String ''ticket'')), empty_heap)
   \<and> ''coupon'' \<in> set (PASS_STYLES example_runtime)
   \<and> Template_new example_runtime empty_heap (String ''coupon'') Undefined =
        (Inr \<lparr>style = ''coupon'', fields_obj = Map.empty, keysPath = Some (String ''keys''),
              password = None, images = Some 0\<rparr>,
         \<lparr>cells = [0 \<mapsto> PassImages []], lim = Suc 0\<rparr>)"
  using Template_new_style_and_defaults
          [where style_arg = "Object [(''toString'', String ''x'')]" and rt = example_runtime
             and h = empty_heap and fields_arg = "Object []" and tag = "''ticket''"
             and s = "''coupon''"]
        Template_new_style_and_defaults
          [where style_arg = Null and rt = example_runtime
             and h = empty_heap and fields_arg = "Object []" and tag = "''ticket''"
             and s = "''coupon''"]
  by (simp add: example_runtime_def empty_heap_def image_iff)

text \<open>
  C1. In every state a Template can reach, each entry of the field mapping belongs to a
  field of the table and holds what the field's setter stores for a value that passed the
  field's validation rule; in particular the value under \<^verbatim>\<open>webServiceURL\<close>, when present,
  is a string that starts with \<^verbatim>\<open>https:\<close>, so that its scheme, which ends at the first
  colon, is exactly https. A setter called with a
  value that fails the rule throws and leaves the whole Template as it was, and so does
  every accessor call that throws. A Template returned by \<open>load\<close> is such a state.
\<close>

theorem stored_fields_are_validated:
  "(reachable rt t \<longrightarrow> fields_obj t field = Some v \<longrightarrow>
      field \<in> set field_names \<and> (\<exists>a. spec_valid rt field a \<and> v = spec_stored rt field a))
   \<and> (reachable rt t \<longrightarrow> fields_obj t ''webServiceURL'' = Some w \<longrightarrow>
      (\<exists>r. w = String (''https:'' @ r)))
   \<and> (field' \<in> set field_names \<longrightarrow> \<not> spec_valid rt field' a' \<longrightarrow>
      (\<exists>e. accessor rt field' [a'] t' = (Inl e, t')))
   \<and> (fst (accessor rt field'' args t') = Inl e' \<longrightarrow> snd (accessor rt field'' args t') = t')
   \<and> (load rt h folderPath keyPassword = (Inr t'', h') \<longrightarrow> reachable rt t'')"
proof (intro conjI impI)
  assume "reachable rt t" and f: "fields_obj t field = Some v"
  then have "fields_valid rt t" by (simp only: reachable_fields_valid)
  from fields_validD [OF this f]
  show "field \<in> set field_names"
    and "\<exists>a. spec_valid rt field a \<and> v = spec_stored rt field a"
    by (rule conjunct1, rule conjunct2)
next
  assume "reachable rt t" and f: "fields_obj t ''webServiceURL'' = Some w"
  then have "fields_valid rt t" by (simp only: reachable_fields_valid)
  then show "\<exists>r. w = String (''https:'' @ r)"
    using f by (rule webServiceURL_stored)
next
  assume "field' \<in> set field_names" and "\<not> spec_valid rt field' a'"
  then show "\<exists>e. accessor rt field' [a'] t' = (Inl e, t')" by (rule accessor_invalid)
next
  assume "fst (accessor rt field'' args t') = Inl e'"
  then show "snd (accessor rt field'' args t') = t'" by (rule accessor_throw_unchanged)
next
  assume "load rt h folderPath keyPassword = (Inr t'', h')"
  then show "reachable rt t''" by (rule load_reachable)
qed

theorem stored_fields_are_validated_witness:
  "reachable example_runtime example_template
   \<and> fields_obj example_template ''webServiceURL'' = Some (String ''https://example.com/'')
   \<and> ''webServiceURL'' \<in> set field_names
   \<and> (\<exists>a. spec_valid example_runtime ''webServiceURL'' a
          \<and> String ''https://example.com/'' = spec_stored example_runtime ''webServiceURL'' a)
   \<and> (\<exists>r. String ''https://example.com/'' = String (''https:'' @ r))
   \<and> ''foregroundColor'' \<in> set field_names
   \<and> \<not> spec_valid example_runtime ''foregroundColor'' (String ''rgb(256,0,0)'')
   \<and> (\<exists>e. accessor example_runtime ''foregroundColor'' [String ''rgb(256,0,0)''] example_template
             = (Inl e, example_template))
   \<and> fst (accessor example_runtime ''webServiceURL'' [String ''http://example.com''] example_template)
       = Inl NotHTTPS
   \<and> snd (accessor example_runtime ''webServiceURL'' [String ''http://example.com''] example_template)
       = example_template
   \<and> reachable example_runtime (example_template\<lparr>keysPath := Some (String ''Event.pass'')\<rparr>)"
proof -
  have r: "reachable example_runtime example_template" by (rule example_template_reachable)
  have f: "fields_obj example_template ''webServiceURL'' = Some (String ''https://example.com/'')"
    by (simp add: example_template_def)
  have n: "''foregroundColor'' \<in> set field_names" by (simp add: field_names_def)
  have i: "\<not> spec_valid example_runtime ''foregroundColor'' (String ''rgb(256,0,0)'')"
    by (simp add: spec_valid_def color_eval)
  have h: "fst (accessor example_runtime ''webServiceURL'' [String ''http://example.com''] example_template)
       = Inl NotHTTPS"
    by (simp add: accessor_def webServiceURL_def to_URL_def example_runtime_def)
  note T = stored_fields_are_validated
            [of example_runtime example_template "''webServiceURL''" "String ''https://example.com/''"
                "String ''https://example.com/''" "''foregroundColor''" "String ''rgb(256,0,0)''"
                example_template "''webServiceURL''" "[String ''http://example.com'']" NotHTTPS]
  note A = T [THEN conjunct1, rule_format, OF r f]
  note B = T [THEN conjunct2, THEN conjunct1, rule_format, OF r f]
  note C = T [THEN conjunct2, THEN conjunct2, THEN conjunct1, rule_format, OF n i]
  note D = T [THEN conjunct2, THEN conjunct2, THEN conjunct2, THEN conjunct1, rule_format, OF h]
  note E = T [THEN conjunct2, THEN conjunct2, THEN conjunct2, THEN conjunct2, rule_format,
              OF example_load_event]
  show ?thesis
    by (intro conjI) (rule r f n i h A [THEN conjunct1] A [THEN conjunct2] B C D E)+
qed




text \<open>
  C5. The setter of \<^verbatim>\<open>webServiceURL\<close> throws, leaving the Template unchanged, when its
  argument is neither a \<^verbatim>\<open>URL\<close> instance nor accepted by the \<^verbatim>\<open>URL\<close> constructor, and when the
  protocol of the URL is not exactly \<^verbatim>\<open>https:\<close>. For an https URL it succeeds, and the
  getter then returns the string form of the parsed URL.
\<close>

theorem webServiceURL_requires_https:
  "(to_URL rt v = None \<longrightarrow> webServiceURL rt [v] t = (Inl InvalidURL, t))
   \<and> (to_URL rt v = Some u \<longrightarrow> protocol u \<noteq> ''https:'' \<longrightarrow>
        webServiceURL rt [v] t = (Inl NotHTTPS, t))
   \<and> (to_URL rt v = Some u \<longrightarrow> protocol u = ''https:'' \<longrightarrow>
        webServiceURL rt [v] t =
          (Inr This, t\<lparr>fields_obj := (fields_obj t)(''webServiceURL'' \<mapsto> String (href u))\<rparr>)
        \<and> webServiceURL rt [] (snd (webServiceURL rt [v] t)) =
          (Inr (Value (String (href u))), snd (webServiceURL rt [v] t)))"
  by (simp add: webServiceURL_def read_field_def)

theorem webServiceURL_requires_https_witness:
  "to_URL example_runtime (String ''example.com'') = None
   \<and> webServiceURL example_runtime [String ''example.com''] example_template
       = (Inl InvalidURL, example_template)
   \<and> to_URL example_runtime (String ''http://example.com'')
       = Some \<lparr>protocol = ''http:'', after_protocol = ''//example.com/''\<rparr>
   \<and> webServiceURL example_runtime [String ''http://example.com''] example_template
       = (Inl NotHTTPS, example_template)
   \<and> to_URL example_runtime (String ''https://example.com'')
       = Some \<lparr>protocol = ''https:'', after_protocol = ''//example.com/''\<rparr>
   \<and> fst (webServiceURL example_runtime [String ''https://example.com''] example_template)
       = Inr This
   \<and> fst (webServiceURL example_runtime []
          (snd (webServiceURL example_runtime [String ''https://example.com''] example_template)))
       = Inr (Value (String ''https://example.com/''))"
proof -
  have a: "to_URL example_runtime (String ''example.com'') = None"
    by (simp add: to_URL_def example_runtime_def)
  have b: "to_URL example_runtime (String ''http://example.com'')
       = Some \<lparr>protocol = ''http:'', after_protocol = ''//example.com/''\<rparr>"
    by (simp add: to_URL_def example_runtime_def)
  have c: "to_URL example_runtime (String ''https://example.com'')
       = Some \<lparr>protocol = ''https:'', after_protocol = ''//example.com/''\<rparr>"
    by (simp add: to_URL_def example_runtime_def)
  have p: "protocol \<lparr>protocol = ''https:'', after_protocol = ''//example.com/''\<rparr> = ''https:''"
    by simp
  have q: "protocol \<lparr>protocol = ''http:'', after_protocol = ''//example.com/''\<rparr> \<noteq> ''https:''"
    by simp
  note A = webServiceURL_requires_https [of example_runtime "String ''example.com''" example_template,
             THEN conjunct1, rule_format, OF a]
  note B = webServiceURL_requires_https [of example_runtime "String ''http://example.com''" _
             "\<lparr>protocol = ''http:'', after_protocol = ''//example.com/''\<rparr>",
             THEN conjunct2, THEN conjunct1, rule_format, OF b q]
  note C = webServiceURL_requires_https [of example_runtime "String ''https://example.com''" _
             "\<lparr>protocol = ''https:'', after_protocol = ''//example.com/''\<rparr>",
             THEN conjunct2, THEN conjunct2, rule_format, OF c p]
  note C1 = C [of example_template, THEN conjunct1]
  note C2 = C [of example_template, THEN conjunct2]
  have d: "fst (webServiceURL example_runtime [String ''https://example.com''] example_template)
       = Inr This"
    by (simp only: C1 fst_conv)
  have e: "fst (webServiceURL example_runtime []
          (snd (webServiceURL example_runtime [String ''https://example.com''] example_template)))
       = Inr (Value (String ''https://example.com/''))"
    by (simp add: C2 href_def)
  show ?thesis
    by (intro conjI) (rule a b c d e A B [of example_template])+
qed

text \<open>
  C4, as stated, fails: the specification's shape allows white space around the commas,
  and the pattern of the code allows none before a comma. \<^verbatim>\<open>'rgb(1 ,2,3)'\<close> has the
  specification's shape and the validator rejects it.
\<close>

theorem color_shape_counterexample:
  "spec_color_shape ''rgb(1 ,2,3)''
   \<and> validateColorValue example_runtime (String ''rgb(1 ,2,3)'') = Inl TypeError"
proof
  show "spec_color_shape ''rgb(1 ,2,3)''"
    unfolding spec_color_shape_def
    apply (rule exI [of _ "[]"])
    apply (rule exI [of _ "[]"])
    apply (rule exI [of _ "'' ''"])
    apply (rule exI [of _ "[]"])
    apply (rule exI [of _ "[]"])
    apply (rule exI [of _ "[]"])
    apply (rule exI [of _ "[]"])
    apply (rule exI [of _ "[]"])
    apply (rule exI [of _ "''1''"])
    apply (rule exI [of _ "''2''"])
    apply (rule exI [of _ "''3''"])
    apply (simp add: isspace_def isdigit_def decimal_def digit_val_def)
    done
  show "validateColorValue example_runtime (String ''rgb(1 ,2,3)'') = Inl TypeError"
    by (simp add: color_eval)
qed

text \<open>
  C4, amended. On a string the colour validator succeeds exactly when the string is
  \<^verbatim>\<open>rgb(\<close>, white space, one to three digits, a comma, white space, one to three digits, a
  comma, white space, one to three digits, white space, \<^verbatim>\<open>)\<close> (each white space optional,
  none before a comma or outside the parentheses) and the three numbers are at most 255.
  A string outside this pattern is rejected with a \<^verbatim>\<open>TypeError\<close>, a string of the pattern with
  a number above 255 with the invalid-colour error; a group of the pattern always parses as
  a number. After a success the setters of \<^verbatim>\<open>foregroundColor\<close> and \<^verbatim>\<open>labelColor\<close> store the
  string as it is and the getter returns it.
\<close>

theorem color_validator_accepts_pattern:
  "(validateColorValue rt (String s) = Inr () \<longleftrightarrow>
      (\<exists>r g b. rgb_pattern s r g b \<and> decimal r \<le> 255 \<and> decimal g \<le> 255 \<and> decimal b \<le> 255))
   \<and> ((\<forall>r g b. \<not> rgb_pattern s r g b) \<longrightarrow> validateColorValue rt (String s) = Inl TypeError)
   \<and> (rgb_pattern s r' g' b' \<longrightarrow> 255 < decimal r' \<or> 255 < decimal g' \<or> 255 < decimal b' \<longrightarrow>
        validateColorValue rt (String s) = Inl (InvalidColorValue (String s)))
   \<and> (validateColorValue rt (String s) = Inr () \<longrightarrow>
        foregroundColor rt [String s] t =
          (Inr This, t\<lparr>fields_obj := (fields_obj t)(''foregroundColor'' \<mapsto> String s)\<rparr>)
        \<and> foregroundColor rt [] (snd (foregroundColor rt [String s] t)) =
          (Inr (Value (String s)), snd (foregroundColor rt [String s] t))
        \<and> labelColor rt [String s] t =
          (Inr This, t\<lparr>fields_obj := (fields_obj t)(''labelColor'' \<mapsto> String s)\<rparr>)
        \<and> labelColor rt [] (snd (labelColor rt [String s] t)) =
          (Inr (Value (String s)), snd (labelColor rt [String s] t)))"
proof (intro conjI impI)
  show "validateColorValue rt (String s) = Inr () \<longleftrightarrow>
      (\<exists>r g b. rgb_pattern s r g b \<and> decimal r \<le> 255 \<and> decimal g \<le> 255 \<and> decimal b \<le> 255)"
    by (rule validateColorValue_ok_iff)
next
  assume "\<forall>r g b. \<not> rgb_pattern s r g b"
  then show "validateColorValue rt (String s) = Inl TypeError"
    by (rule validateColorValue_no_pattern)
next
  assume "rgb_pattern s r' g' b'" and "255 < decimal r' \<or> 255 < decimal g' \<or> 255 < decimal b'"
  then show "validateColorValue rt (String s) = Inl (InvalidColorValue (String s))"
    by (simp add: validateColorValue_pattern)
next
  assume ok: "validateColorValue rt (String s) = Inr ()"
  then show "foregroundColor rt [String s] t =
          (Inr This, t\<lparr>fields_obj := (fields_obj t)(''foregroundColor'' \<mapsto> String s)\<rparr>)"
    by (simp add: foregroundColor_def)
  from ok show "foregroundColor rt [] (snd (foregroundColor rt [String s] t)) =
          (Inr (Value (String s)), snd (foregroundColor rt [String s] t))"
    by (simp add: foregroundColor_def read_field_def)
  from ok show "labelColor rt [String s] t =
          (Inr This, t\<lparr>fields_obj := (fields_obj t)(''labelColor'' \<mapsto> String s)\<rparr>)"
    by (simp add: labelColor_def)
  from ok show "labelColor rt [] (snd (labelColor rt [String s] t)) =
          (Inr (Value (String s)), snd (labelColor rt [String s] t))"
    by (simp add: labelColor_def read_field_def)
qed

theorem color_validator_accepts_pattern_witness:
  "validateColorValue example_runtime (String ''rgb(255,255,255)'') = Inr ()
   \<and> fst (foregroundColor example_runtime []
            (snd (foregroundColor example_runtime [String ''rgb(255,255,255)''] example_template)))
       = Inr (Value (String ''rgb(255,255,255)''))
   \<and> rgb_pattern ''rgb(256,0,0)'' ''256'' ''0'' ''0''
   \<and> validateColorValue example_runtime (String ''rgb(256,0,0)'')
       = Inl (InvalidColorValue (String ''rgb(256,0,0)''))
   \<and> (\<forall>r g b. \<not> rgb_pattern ''not-a-color'' r g b)
   \<and> validateColorValue example_runtime (String ''not-a-color'') = Inl TypeError"
proof -
  have a: "validateColorValue example_runtime (String ''rgb(255,255,255)'') = Inr ()"
    by (simp add: color_eval)
  have "color_regex_exec ''rgb(256,0,0)'' = Some (''256'', ''0'', ''0'')"
    by (simp add: color_eval)
  then have b: "rgb_pattern ''rgb(256,0,0)'' ''256'' ''0'' ''0''"
    by (rule color_regex_exec_sound)
  have b': "255 < decimal ''256'' \<or> 255 < decimal ''0'' \<or> 255 < decimal ''0''"
    by (simp add: decimal_def digit_val_def)
  have "color_regex_exec ''not-a-color'' = None"
    by (simp add: color_eval)
  then have c: "\<forall>r g b. \<not> rgb_pattern ''not-a-color'' r g b"
    using color_regex_exec_complete [of "''not-a-color''"] by auto
  note T1 = color_validator_accepts_pattern
              [of example_runtime "''rgb(255,255,255)''" _ _ _ example_template,
               THEN conjunct2, THEN conjunct2, THEN conjunct2, rule_format, OF a]
  note T2 = color_validator_accepts_pattern
              [of example_runtime "''rgb(256,0,0)''" "''256''" "''0''" "''0''",
               THEN conjunct2, THEN conjunct2, THEN conjunct1, rule_format, OF b b']
  note T3 = color_validator_accepts_pattern
              [of example_runtime "''not-a-color''",
               THEN conjunct2, THEN conjunct1, THEN mp, OF c]
  have d: "fst (foregroundColor example_runtime []
            (snd (foregroundColor example_runtime [String ''rgb(255,255,255)''] example_template)))
       = Inr (Value (String ''rgb(255,255,255)''))"
    by (simp only: T1 [THEN conjunct2, THEN conjunct1] fst_conv)
  show ?thesis
    by (intro conjI) (rule a b c d T2 T3)+
qed

text \<open>
  C6. For a registry none of whose names is a property of \<^verbatim>\<open>Object.prototype\<close> (the operator
  \<^verbatim>\<open>in\<close> also sees inherited properties), style detection on a definition object returns
  the first name of the registry, in the registry's order, that is a top-level key of the
  object, and the unknown-style error when there is none. In \<open>load\<close>, once the definition
  object has been read, the absence of such a name makes the load fail with the
  unknown-style error, and a Template that is returned has that first name as its style.
\<close>

theorem style_detection_first_match:
  "(set styles \<inter> set Object_prototype_names = {} \<longrightarrow>
      detect_style rt styles (Object kvs) =
        (case find (\<lambda>s. s \<in> set (map fst kvs)) styles of
           None \<Rightarrow> Inl UnknownPassStyle
         | Some s \<Rightarrow> Inr s))
   \<and> (set (PASS_STYLES rt) \<inter> set Object_prototype_names = {} \<longrightarrow>
        definition_read rt folderPath kvs \<longrightarrow>
        find (\<lambda>s. s \<in> set (map fst kvs)) (PASS_STYLES rt) = None \<longrightarrow>
        load rt h folderPath keyPassword = (Inl UnknownPassStyle, h))
   \<and> (set (PASS_STYLES rt) \<inter> set Object_prototype_names = {} \<longrightarrow>
        definition_read rt folderPath kvs \<longrightarrow>
        load rt h folderPath keyPassword = (Inr t, h') \<longrightarrow>
        find (\<lambda>s. s \<in> set (map fst kvs)) (PASS_STYLES rt) = Some (style t))"
proof (intro conjI impI)
  assume "set styles \<inter> set Object_prototype_names = {}"
  then show "detect_style rt styles (Object kvs) =
        (case find (\<lambda>s. s \<in> set (map fst kvs)) styles of
           None \<Rightarrow> Inl UnknownPassStyle
         | Some s \<Rightarrow> Inr s)"
    by (rule detect_style_find)
next
  assume r: "set (PASS_STYLES rt) \<inter> set Object_prototype_names = {}"
    and d: "definition_read rt folderPath kvs"
    and n: "find (\<lambda>s. s \<in> set (map fst kvs)) (PASS_STYLES rt) = None"
  have "detect_style rt (PASS_STYLES rt) (Object kvs) = Inl UnknownPassStyle"
    by (simp only: detect_style_find [OF r] n option.case)
  with d show "load rt h folderPath keyPassword = (Inl UnknownPassStyle, h)"
    by (rule load_unknown_style)
next
  assume r: "set (PASS_STYLES rt) \<inter> set Object_prototype_names = {}"
    and d: "definition_read rt folderPath kvs"
    and l: "load rt h folderPath keyPassword = (Inr t, h')"
  from load_style [OF d l] detect_style_find [OF r, of rt kvs]
  show "find (\<lambda>s. s \<in> set (map fst kvs)) (PASS_STYLES rt) = Some (style t)"
    by (cases "find (\<lambda>s. s \<in> set (map fst kvs)) (PASS_STYLES rt)") simp_all
qed

theorem style_detection_first_match_witness:
  "set (PASS_STYLES example_runtime) \<inter> set Object_prototype_names = {}
   \<and> detect_style example_runtime (PASS_STYLES example_runtime)
         (Object [(''generic'', Object []), (''coupon'', Object [])]) = Inr ''coupon''
   \<and> definition_read example_runtime ''Plain.pass'' [(''description'', String ''none'')]
   \<and> load example_runtime empty_heap ''Plain.pass'' Undefined = (Inl UnknownPassStyle, empty_heap)
   \<and> definition_read example_runtime ''Event.pass'' example_definition
   \<and> fst (load example_runtime empty_heap ''Event.pass'' Undefined)
       = Inr (example_template\<lparr>keysPath := Some (String ''Event.pass'')\<rparr>)
   \<and> find (\<lambda>s. s \<in> set (map fst example_definition)) (PASS_STYLES example_runtime)
       = Some ''eventTicket''"
proof -
  note T = style_detection_first_match [of "PASS_STYLES example_runtime" example_runtime]
  have a: "detect_style example_runtime (PASS_STYLES example_runtime)
         (Object [(''generic'', Object []), (''coupon'', Object [])]) = Inr ''coupon''"
    using T [of "[(''generic'', Object []), (''coupon'', Object [])]", THEN conjunct1, THEN mp,
             OF example_registry]
    by (simp add: example_runtime_def)
  have n: "find (\<lambda>s. s \<in> set (map fst [(''description'', String ''none'')]))
             (PASS_STYLES example_runtime) = None"
    by (simp add: example_runtime_def)
  note b = T [THEN conjunct2, THEN conjunct1, rule_format, OF example_registry example_read_plain n]
  have e: "fst (load example_runtime empty_heap ''Event.pass'' Undefined)
       = Inr (example_template\<lparr>keysPath := Some (String ''Event.pass'')\<rparr>)"
    by (simp only: example_load_event fst_conv)
  have "find (\<lambda>s. s \<in> set (map fst example_definition)) (PASS_STYLES example_runtime)
       = Some (style (example_template\<lparr>keysPath := Some (String ''Event.pass'')\<rparr>))"
    by (rule T [THEN conjunct2, THEN conjunct2, rule_format, OF example_registry example_read_event
                example_load_event])
  then have c: "find (\<lambda>s. s \<in> set (map fst example_definition)) (PASS_STYLES example_runtime)
       = Some ''eventTicket''"
    by (simp add: example_template_def)
  show ?thesis
    by (intro conjI) (rule example_registry a example_read_plain b example_read_event e c)+
qed

text \<open>
  C7, as stated, fails in its last part: the Template that \<open>load\<close> returns for a
  well-formed \<^verbatim>\<open>eventTicket\<close> bundle does not have the content of the definition file as
  its field mapping. The constructor stores a value only through the setter of the same
  name, so the key \<^verbatim>\<open>eventTicket\<close> itself, and every other key that is not a field of the
  table, is absent from the mapping.
\<close>

theorem load_fields_counterexample:
  "definition_read example_runtime ''Event.pass'' example_definition
   \<and> load example_runtime empty_heap ''Event.pass'' Undefined =
       (Inr (example_template\<lparr>keysPath := Some (String ''Event.pass'')\<rparr>),
        example_heap\<lparr>cells := (cells example_heap)(0 \<mapsto> PassImages [(''icon.png'', ''Event.pass'')])\<rparr>)
   \<and> style (example_template\<lparr>keysPath := Some (String ''Event.pass'')\<rparr>) = ''eventTicket''
   \<and> map_of example_definition ''eventTicket'' = Some (Object [])
   \<and> fields_obj (example_template\<lparr>keysPath := Some (String ''Event.pass'')\<rparr>) ''eventTicket'' = None
   \<and> fields_obj (example_template\<lparr>keysPath := Some (String ''Event.pass'')\<rparr>)
       \<noteq> map_of example_definition"
proof -
  have a: "map_of example_definition ''eventTicket'' = Some (Object [])"
    by (simp add: example_definition_def)
  have b: "fields_obj (example_template\<lparr>keysPath := Some (String ''Event.pass'')\<rparr>) ''eventTicket'' = None"
    by (simp add: example_template_def)
  have c: "fields_obj (example_template\<lparr>keysPath := Some (String ''Event.pass'')\<rparr>)
       \<noteq> map_of example_definition"
  proof
    assume "fields_obj (example_template\<lparr>keysPath := Some (String ''Event.pass'')\<rparr>)
       = map_of example_definition"
    then have "fields_obj (example_template\<lparr>keysPath := Some (String ''Event.pass'')\<rparr>) ''eventTicket''
       = map_of example_definition ''eventTicket''" by (rule fun_cong)
    with a b show False by simp
  qed
  have s: "style (example_template\<lparr>keysPath := Some (String ''Event.pass'')\<rparr>) = ''eventTicket''"
    by (simp add: example_template_def)
  show ?thesis
    by (intro conjI) (rule example_read_event example_load_event s a b c)+
qed

text \<open>
  C7, amended. \<open>load\<close> on a directory whose definition file cannot be read fails with
  the error of the read, and with the error of the parser when the content does not parse;
  on a directory whose definition object has no style of the registry among its keys it
  fails with the unknown-style error. On a bundle whose definition object has the key
  \<^verbatim>\<open>eventTicket\<close> and no other style key, in which the value of every field of the table
  satisfies the field's rule and every other key names no function member of the instance
  (no method of the class and no function of \<^verbatim>\<open>Object.prototype\<close>, which the constructor
  would call), whose \<^verbatim>\<open>passTypeIdentifier\<close> is a string and whose images load, it returns
  a Template whose style is \<^verbatim>\<open>eventTicket\<close> and whose field mapping holds exactly the
  entries of the definition for the fields of the table, each with the value its setter
  stores.
\<close>

theorem load_outcomes:
  "(statAsync rt folderPath = Inr st \<longrightarrow> isDirectory st \<longrightarrow>
      readFileAsync rt (path_join rt folderPath ''pass.json'') = Inl e \<longrightarrow>
      load rt h folderPath keyPassword = (Inl e, h))
   \<and> (statAsync rt folderPath = Inr st \<longrightarrow> isDirectory st \<longrightarrow>
      readFileAsync rt (path_join rt folderPath ''pass.json'') = Inr content \<longrightarrow>
      JSON_parse rt content = Inl e \<longrightarrow>
      load rt h folderPath keyPassword = (Inl e, h))
   \<and> (set (PASS_STYLES rt) \<inter> set Object_prototype_names = {} \<longrightarrow>
      definition_read rt folderPath kvs \<longrightarrow>
      (\<forall>s \<in> set (PASS_STYLES rt). s \<notin> set (map fst kvs)) \<longrightarrow>
      load rt h folderPath keyPassword = (Inl UnknownPassStyle, h))
   \<and> (set (PASS_STYLES rt) \<inter> set Object_prototype_names = {} \<longrightarrow>
      definition_read rt folderPath kvs \<longrightarrow>
      distinct (map fst kvs) \<longrightarrow>
      ''eventTicket'' \<in> set (PASS_STYLES rt) \<longrightarrow>
      ''eventTicket'' \<in> set (map fst kvs) \<longrightarrow>
      (\<forall>s \<in> set (PASS_STYLES rt). s \<in> set (map fst kvs) \<longrightarrow> s = ''eventTicket'') \<longrightarrow>
      entries_accepted rt kvs \<longrightarrow>
      loadFromDirectory rt (PassImages []) folderPath = Inr imgs \<longrightarrow>
      map_of kvs ''passTypeIdentifier'' = Some (String tid) \<longrightarrow>
      (\<exists>t h'. load rt h folderPath keyPassword = (Inr t, h') \<and> style t = ''eventTicket''
         \<and> fields_obj t = recognised_fields rt kvs))"
proof (intro conjI impI)
  assume "statAsync rt folderPath = Inr st" "isDirectory st"
    "readFileAsync rt (path_join rt folderPath ''pass.json'') = Inl e"
  then show "load rt h folderPath keyPassword = (Inl e, h)" by (rule load_read_failure)
next
  assume "statAsync rt folderPath = Inr st" "isDirectory st"
    "readFileAsync rt (path_join rt folderPath ''pass.json'') = Inr content"
    "JSON_parse rt content = Inl e"
  then show "load rt h folderPath keyPassword = (Inl e, h)" by (rule load_parse_failure)
next
  assume r: "set (PASS_STYLES rt) \<inter> set Object_prototype_names = {}"
    and d: "definition_read rt folderPath kvs"
    and n: "\<forall>s \<in> set (PASS_STYLES rt). s \<notin> set (map fst kvs)"
  from n have "find (\<lambda>s. s \<in> set (map fst kvs)) (PASS_STYLES rt) = None"
    by (simp add: find_None_iff)
  then have "detect_style rt (PASS_STYLES rt) (Object kvs) = Inl UnknownPassStyle"
    by (simp only: detect_style_find [OF r] option.case)
  with d show "load rt h folderPath keyPassword = (Inl UnknownPassStyle, h)"
    by (rule load_unknown_style)
next
  assume "set (PASS_STYLES rt) \<inter> set Object_prototype_names = {}"
    "definition_read rt folderPath kvs"
    "distinct (map fst kvs)"
    "''eventTicket'' \<in> set (PASS_STYLES rt)"
    "''eventTicket'' \<in> set (map fst kvs)"
    "\<forall>s \<in> set (PASS_STYLES rt). s \<in> set (map fst kvs) \<longrightarrow> s = ''eventTicket''"
    "entries_accepted rt kvs"
    "loadFromDirectory rt (PassImages []) folderPath = Inr imgs"
    "map_of kvs ''passTypeIdentifier'' = Some (String tid)"
  then show "\<exists>t h'. load rt h folderPath keyPassword = (Inr t, h') \<and> style t = ''eventTicket''
         \<and> fields_obj t = recognised_fields rt kvs"
    by (rule load_event_ticket)
qed

theorem load_outcomes_witness:
  "load example_runtime empty_heap ''Empty.pass'' Undefined = (Inl (FsError ''ENOENT''), empty_heap)
   \<and> load example_runtime empty_heap ''Broken.pass'' Undefined = (Inl SyntaxError, empty_heap)
   \<and> load example_runtime empty_heap ''Plain.pass'' Undefined = (Inl UnknownPassStyle, empty_heap)
   \<and> (\<exists>t h'. load example_runtime empty_heap ''Event.pass'' Undefined = (Inr t, h')
         \<and> style t = ''eventTicket''
         \<and> fields_obj t = recognised_fields example_runtime example_definition)
   \<and> recognised_fields example_runtime example_definition ''webServiceURL''
       = Some (String ''https://example.com/'')
   \<and> recognised_fields example_runtime example_definition ''eventTicket'' = None"
proof -
  note T = load_outcomes [of example_runtime]
  have dir: "isDirectory \<lparr>isDirectory = True, isFile = False\<rparr>" by simp
  have s1: "statAsync example_runtime ''Empty.pass'' = Inr \<lparr>isDirectory = True, isFile = False\<rparr>"
    by (simp add: example_runtime_def)
  have r1: "readFileAsync example_runtime (path_join example_runtime ''Empty.pass'' ''pass.json'')
              = Inl (FsError ''ENOENT'')"
    by (simp add: example_runtime_def)
  note a = T [THEN conjunct1, rule_format, OF s1 dir r1]
  have s2: "statAsync example_runtime ''Broken.pass'' = Inr \<lparr>isDirectory = True, isFile = False\<rparr>"
    by (simp add: example_runtime_def)
  have r2: "readFileAsync example_runtime (path_join example_runtime ''Broken.pass'' ''pass.json'')
              = Inr ''{''"
    by (simp add: example_runtime_def)
  have p2: "JSON_parse example_runtime ''{'' = Inl SyntaxError"
    by (simp add: example_runtime_def)
  note b = T [THEN conjunct2, THEN conjunct1, rule_format, OF s2 dir r2 p2]
  have n3: "\<forall>s \<in> set (PASS_STYLES example_runtime). s \<notin> set (map fst [(''description'', String ''none'')])"
    by (simp add: example_runtime_def)
  note c = T [THEN conjunct2, THEN conjunct2, THEN conjunct1, THEN mp, THEN mp, THEN mp,
              OF example_registry example_read_plain n3]
  have d1: "distinct (map fst example_definition)" by (simp add: example_definition_def)
  have d2: "''eventTicket'' \<in> set (PASS_STYLES example_runtime)" by (simp add: example_runtime_def)
  have d3: "''eventTicket'' \<in> set (map fst example_definition)" by (simp add: example_definition_def)
  have d4: "\<forall>s \<in> set (PASS_STYLES example_runtime).
              s \<in> set (map fst example_definition) \<longrightarrow> s = ''eventTicket''"
    by (simp add: example_runtime_def example_definition_def)
  have d5: "loadFromDirectory example_runtime (PassImages []) ''Event.pass''
              = Inr (PassImages [(''icon.png'', ''Event.pass'')])"
    by (simp add: example_runtime_def)
  have d6: "map_of example_definition ''passTypeIdentifier'' = Some (String ''pass.com.example.event'')"
    by (simp add: example_definition_def)
  note d = T [THEN conjunct2, THEN conjunct2, THEN conjunct2,
              THEN mp, THEN mp, THEN mp, THEN mp, THEN mp, THEN mp, THEN mp, THEN mp, THEN mp,
              OF example_registry example_read_event d1 d2 d3 d4 example_entries_accepted d5 d6]
  have e: "recognised_fields example_runtime example_definition ''webServiceURL''
       = Some (String ''https://example.com/'')"
    by (simp add: recognised_fields_def field_names_def example_definition_def spec_stored_def
          to_URL_def example_runtime_def href_def)
  have f: "recognised_fields example_runtime example_definition ''eventTicket'' = None"
    by (simp add: recognised_fields_def field_names_def)
  show ?thesis
    by (intro conjI) (rule a b c d e f)+
qed

text \<open>
  C3. The key probe is meant never to fail a load whose first five steps succeeded. The
  code derives the name of the key file before it enters the \<^verbatim>\<open>try\<close> block, so on the
  bundle whose definition is \<^verbatim>\<open>{"eventTicket": {}}\<close> the directory check, the read, the
  style detection, the construction and the image loading all succeed and the load still
  throws: \<^verbatim>\<open>passJson.passTypeIdentifier\<close> is \<^verbatim>\<open>undefined\<close> and \<^verbatim>\<open>.replace\<close> on it raises a
  \<^verbatim>\<open>TypeError\<close>, which nothing catches.
\<close>

theorem load_without_identifier_throws:
  "definition_read example_runtime ''Bare.pass'' [(''eventTicket'', Object [])]
   \<and> detect_style example_runtime (PASS_STYLES example_runtime)
         (Object [(''eventTicket'', Object [])]) = Inr ''eventTicket''
   \<and> Template_new example_runtime empty_heap (String ''eventTicket'')
         (Object [(''eventTicket'', Object [])]) =
       (Inr \<lparr>style = ''eventTicket'', fields_obj = Map.empty, keysPath = Some (String ''keys''),
             password = None, images = Some 0\<rparr>,
        example_heap)
   \<and> loadFromDirectory example_runtime (PassImages []) ''Bare.pass''
       = Inr (PassImages [(''icon.png'', ''Bare.pass'')])
   \<and> load example_runtime empty_heap ''Bare.pass'' Undefined =
       (Inl TypeError,
        example_heap\<lparr>cells := (cells example_heap)(0 \<mapsto> PassImages [(''icon.png'', ''Bare.pass'')])\<rparr>)"
proof -
  have l: "loadFromDirectory example_runtime (PassImages []) ''Bare.pass''
       = Inr (PassImages [(''icon.png'', ''Bare.pass'')])"
    by (simp add: example_runtime_def)
  have i: "typeIdentifier_string (Object [(''eventTicket'', Object [])]) = None"
    by (simp add: typeIdentifier_string_def)
  have z: "lim empty_heap = 0" by (simp add: empty_heap_def)
  have "load example_runtime empty_heap ''Bare.pass'' Undefined =
       (Inl TypeError,
        example_heap\<lparr>cells := (cells example_heap)(0 \<mapsto> PassImages [(''icon.png'', ''Bare.pass'')])\<rparr>)"
    by (simp only: load_after_new [OF example_read_bare example_detect_bare example_new_bare]
          l i z sum.case option.case)
  then show ?thesis
    by (intro conjI) (rule example_read_bare example_detect_bare example_new_bare l)+
qed

text \<open>
  C9. A key of the initial mapping that is not a field name is meant to be ignored. The
  constructor calls every member of the instance that is a function, so the key
  \<^verbatim>\<open>constructor\<close>, which is not a field name, makes the construction throw a \<^verbatim>\<open>TypeError\<close>
  (the class is called without \<^verbatim>\<open>new\<close>), and so does \<^verbatim>\<open>__defineGetter__\<close>; a key that names
  no member, such as \<^verbatim>\<open>serialNumber\<close>, is ignored, and the setter of a field name is called.
\<close>

theorem constructor_key_throws:
  "''constructor'' \<notin> set field_names
   \<and> ''coupon'' \<in> set (PASS_STYLES example_runtime)
   \<and> Template_new example_runtime empty_heap (String ''coupon'')
         (Object [(''logoText'', String ''X''), (''constructor'', String ''x'')])
       = (Inl TypeError, empty_heap)
   \<and> Template_new example_runtime empty_heap (String ''coupon'')
         (Object [(''__defineGetter__'', String ''x'')])
       = (Inl TypeError, empty_heap)
   \<and> Template_new example_runtime empty_heap (String ''coupon'')
         (Object [(''logoText'', String ''X''), (''serialNumber'', String ''x'')])
       = (Inr \<lparr>style = ''coupon'', fields_obj = [''logoText'' \<mapsto> String ''X''],
               keysPath = Some (String ''keys''), password = None, images = Some 0\<rparr>,
          example_heap)"
  by (simp add: Template_new_def example_runtime_def Object_entries_def own_entries_def
        is_function_member_def field_names_def Object_prototype_functions_def
        call_member_def accessor_def logoText_def
        new_PassImages_def empty_heap_def example_heap_def)

end
